theory Spec2Isabelle
  imports Complex_Main
begin

section \<open>Python values shared by both modules\<close>

text \<open>
  Python floats are modelled as exact reals: every quotient, product and comparison of the
  source is the real one, and binary representation error is outside the model.
  \<^verbatim>\<open>round(x, n)\<close> (the builtin, and the pandas/numpy \<^verbatim>\<open>.round(n)\<close>) rounds
  \<open>x * 10 ^ n\<close> to the nearest integer, a tie going to the even neighbour.
  The one place where representation error decides a property, the sum of the sentiment
  percentages, is modelled in binary64 as well (\<open>f64\<close>, \<open>np_round\<close> and
  \<open>percentages_f64\<close> below).
\<close>

definition rint :: "real \<Rightarrow> int" where
  "rint x =
     (let f = \<lfloor>x\<rfloor>; d = x - of_int f
      in if d < 1 / 2 then f else if 1 / 2 < d then f + 1 else if even f then f else f + 1)"

definition py_round :: "real \<Rightarrow> nat \<Rightarrow> real" where
  "py_round x n = of_int (rint (x * 10 ^ n)) / 10 ^ n"

text \<open>
  A double (IEEE 754 binary64) is a real \<open>m * 2 ^ e\<close> with an integer \<open>m\<close> of at most
  53 bits. \<open>f64 x\<close> is the double nearest to \<open>x\<close>, a tie going to the even \<open>m\<close>: it is
  the result of an arithmetic operation whose exact result is \<open>x\<close>, and of the conversion
  of an integer \<open>x\<close>. The exponent is not bounded: overflow and subnormal numbers are
  outside the model (the values here lie between 0 and 1000).
  \<^verbatim>\<open>ndarray.round(d)\<close>, which \<^verbatim>\<open>Series.round(d)\<close> calls, multiplies by
  \<^verbatim>\<open>10**d\<close>, rounds to the nearest integer (\<^verbatim>\<open>rint\<close>, ties to even) and divides by
  \<^verbatim>\<open>10**d\<close>, each step in binary64.
\<close>

definition f64 :: "real \<Rightarrow> real" where
  "f64 x =
     (if x = 0 then 0
      else (let e = \<lfloor>log 2 \<bar>x\<bar>\<rfloor> - 52
            in real_of_int (rint (x / 2 powr real_of_int e)) * 2 powr real_of_int e))"

definition np_round :: "real \<Rightarrow> nat \<Rightarrow> real" where
  "np_round x d = f64 (real_of_int (rint (f64 (x * 10 ^ d))) / 10 ^ d)"

datatype py_error = ZeroDivisionError | KeyError | TypeError | AttributeError

text \<open>
  Text is a list of 8-bit characters and is taken to be ASCII. \<^verbatim>\<open>str.lower()\<close> maps
  \<^verbatim>\<open>A\<close>..\<^verbatim>\<open>Z\<close> to \<^verbatim>\<open>a\<close>..\<^verbatim>\<open>z\<close>;
  \<^verbatim>\<open>re.findall(r'\b\w+\b', text)\<close> returns the maximal runs of word characters
  (letters, digits, underscore) from left to right.
\<close>

definition lower_char :: "char \<Rightarrow> char" where
  "lower_char c =
     (let n = (of_char c :: nat) in if 65 \<le> n \<and> n \<le> 90 then char_of (n + 32) else c)"

definition lower :: "string \<Rightarrow> string" where
  "lower s = map lower_char s"

definition is_word_char :: "char \<Rightarrow> bool" where
  "is_word_char c =
     (let n = (of_char c :: nat)
      in (48 \<le> n \<and> n \<le> 57) \<or> (65 \<le> n \<and> n \<le> 90) \<or> n = 95 \<or> (97 \<le> n \<and> n \<le> 122))"

fun words_from :: "string \<Rightarrow> string \<Rightarrow> string list" where
  "words_from cur [] = (if cur = [] then [] else [cur])"
| "words_from cur (c # cs) =
     (if is_word_char c then words_from (cur @ [c]) cs
      else (if cur = [] then [] else [cur]) @ words_from [] cs)"

definition findall_words :: "string \<Rightarrow> string list" where
  "findall_words s = words_from [] s"

text \<open>
  \<^verbatim>\<open>collections.Counter(xs)\<close> is a dict in insertion order: a key enters at the end
  when it is first met and its count is bumped in place afterwards.
  \<^verbatim>\<open>d.get(k, default)\<close> reads a dict held as an association list.
  \<^verbatim>\<open>Counter.most_common(n)\<close> is documented as
  \<^verbatim>\<open>sorted(items, key=count, reverse=True)[:n]\<close>; Python's sort is stable, also
  with \<^verbatim>\<open>reverse=True\<close>, so entries of equal count keep their insertion order.
\<close>

fun counter_add :: "'a \<Rightarrow> ('a \<times> nat) list \<Rightarrow> ('a \<times> nat) list" where
  "counter_add k [] = [(k, 1)]"
| "counter_add k ((k', v) # r) =
     (if k = k' then (k', v + 1) # r else (k', v) # counter_add k r)"

definition Counter :: "'a list \<Rightarrow> ('a \<times> nat) list" where
  "Counter xs = foldl (\<lambda>c k. counter_add k c) [] xs"

definition dict_get :: "('k \<times> 'v) list \<Rightarrow> 'k \<Rightarrow> 'v \<Rightarrow> 'v" where
  "dict_get d k dflt = (case map_of d k of None \<Rightarrow> dflt | Some v \<Rightarrow> v)"

definition most_common :: "nat \<Rightarrow> ('a \<times> nat) list \<Rightarrow> ('a \<times> nat) list" where
  "most_common n c = take n (sort_key (\<lambda>kv. - int (snd kv)) c)"

section \<open>feedback\_analyzer.py: FeedbackAnalyzer\<close>

datatype sentiment = Positive | Negative | Neutral

text \<open>
  The data frame of the analyzer: the \<^verbatim>\<open>feedback\<close> column (an entry is a text, or
  \<open>None\<close> for a missing value, the entries \<^verbatim>\<open>pd.isna\<close> accepts) and the two
  columns \<^verbatim>\<open>analyze_sentiment\<close> adds.
\<close>

record feedback_frame =
  feedback_col :: "string option list"
  sentiment_col :: "sentiment list option"
  sentiment_score_col :: "real list option"

text \<open>
  The dicts \<^verbatim>\<open>distribution\<close> and \<^verbatim>\<open>percentages\<close> come from
  \<^verbatim>\<open>value_counts().to_dict()\<close>: a category is a key exactly when it occurs.
  They are read by key only, so they are maps.
\<close>

record sentiment_result =
  distribution :: "sentiment \<rightharpoonup> nat"
  percentages :: "sentiment \<rightharpoonup> real"
  average_sentiment :: real

record theme_result =
  common_keywords :: "(string \<times> nat) list"
  theme_categories :: "(string \<times> nat) list"
  total_keywords_found :: nat

record priority_issue =
  issue :: string
  frequency :: nat
  percentage :: real

text \<open>
  What \<^verbatim>\<open>identify_priority_issues\<close> returns: the dict
  \<^verbatim>\<open>{'message': 'No negative feedback found'}\<close> or the ranked list.
\<close>

datatype priority_result = NoNegativeFeedback | Ranked "priority_issue list"

record results =
  sentiment_analysis :: "sentiment_result option"
  theme_analysis :: "theme_result option"
  priority_issues :: "priority_result option"

record analyzer =
  feedback_data :: "feedback_frame option"
  analysis_results :: results

definition init_analyzer :: analyzer where
  "init_analyzer =
     \<lparr>feedback_data = None,
      analysis_results =
        \<lparr>sentiment_analysis = None, theme_analysis = None, priority_issues = None\<rparr>\<rparr>"

text \<open>
  \<^verbatim>\<open>load_feedback\<close> on a list wraps it into a fresh frame with the one column
  \<^verbatim>\<open>feedback\<close>; a frame passed in is kept as it is, and the model covers the frames
  that have this column. The results of an earlier analysis stay in
  \<^verbatim>\<open>analysis_results\<close>.
\<close>

definition load_feedback :: "string option list \<Rightarrow> analyzer \<Rightarrow> analyzer" where
  "load_feedback feedback_list st =
     st\<lparr>feedback_data :=
          Some \<lparr>feedback_col = feedback_list, sentiment_col = None,
                sentiment_score_col = None\<rparr>\<rparr>"

subsection \<open>analyze\_sentiment\<close>

text \<open>
  The polarity of a text comes from TextBlob, a library outside the repository: it is the
  parameter \<open>score\<close>. One pass of the loop body on one entry of the column:
\<close>

definition classify :: "real \<Rightarrow> sentiment" where
  "classify polarity =
     (if polarity > 1 / 10 then Positive
      else if polarity < - (1 / 10) then Negative
      else Neutral)"

definition score_feedback :: "(string \<Rightarrow> real) \<Rightarrow> string option \<Rightarrow> sentiment \<times> real" where
  "score_feedback score fb =
     (case fb of
        None \<Rightarrow> (Neutral, 0)
      | Some text \<Rightarrow> (let polarity = score text in (classify polarity, polarity)))"

definition value_counts :: "'a list \<Rightarrow> ('a \<rightharpoonup> nat)" where
  "value_counts xs = (\<lambda>c. if c \<in> set xs then Some (count_list xs c) else None)"

text \<open>The values of a dict over the three categories, for summing them.\<close>

definition dict_values :: "(sentiment \<rightharpoonup> 'v) \<Rightarrow> 'v list" where
  "dict_values m = List.map_filter m [Positive, Negative, Neutral]"

text \<open>
  The result is the returned value (an error, \<open>None\<close>, or the result dict) and the
  analyzer after the call. With no response the columns are still assigned, the
  distribution is empty, and the mean polarity divides by \<^verbatim>\<open>len(sentiment_scores)\<close>,
  which is zero.
\<close>

definition analyze_sentiment ::
  "(string \<Rightarrow> real) \<Rightarrow> analyzer \<Rightarrow> (py_error + sentiment_result option) \<times> analyzer" where
  "analyze_sentiment score st =
     (case feedback_data st of
        None \<Rightarrow> (Inr None, st)
      | Some df \<Rightarrow>
          (let scored = map (score_feedback score) (feedback_col df);
               sentiments = map fst scored;
               sentiment_scores = map snd scored;
               st1 = st\<lparr>feedback_data :=
                          Some (df\<lparr>sentiment_col := Some sentiments,
                                   sentiment_score_col := Some sentiment_scores\<rparr>)\<rparr>;
               sentiment_dist = value_counts sentiments;
               sentiment_percentages =
                 (\<lambda>c. map_option
                         (\<lambda>n. py_round (real n / real (length sentiments) * 100) 1)
                         (sentiment_dist c))
           in if length sentiment_scores = 0 then (Inl ZeroDivisionError, st1)
              else
                (let r = \<lparr>distribution = sentiment_dist,
                          percentages = sentiment_percentages,
                          average_sentiment =
                            py_round (sum_list sentiment_scores
                                        / real (length sentiment_scores)) 3\<rparr>
                 in (Inr (Some r),
                     st1\<lparr>analysis_results :=
                           (analysis_results st1)\<lparr>sentiment_analysis := Some r\<rparr>\<rparr>))))"

text \<open>
  Lines 68 and 69 in binary64, on the list \<^verbatim>\<open>sentiments\<close>: the counts and the length are
  converted to doubles, divided, multiplied by 100 and rounded to one decimal by
  \<^verbatim>\<open>.round(1)\<close>. The field \<open>percentages\<close> of the result above holds the same values
  over the exact reals.
\<close>

definition percentages_f64 :: "sentiment list \<Rightarrow> (sentiment \<rightharpoonup> real)" where
  "percentages_f64 sentiments =
     (\<lambda>c. map_option
             (\<lambda>k. np_round (f64 (f64 (f64 (real k) / f64 (real (length sentiments))) * 100)) 1)
             (value_counts sentiments c))"

subsection \<open>extract\_themes\<close>

definition ux_keywords :: "string list" where
  "ux_keywords =
     [''easy'', ''difficult'', ''confusing'', ''intuitive'', ''simple'', ''complicated'',
      ''fast'', ''slow'', ''quick'', ''loading'', ''responsive'', ''laggy'',
      ''design'', ''interface'', ''layout'', ''navigation'', ''menu'', ''button'',
      ''search'', ''find'', ''discover'', ''browse'', ''filter'', ''sort'',
      ''recommendation'', ''suggest'', ''personalize'', ''relevant'', ''accurate'',
      ''bug'', ''error'', ''crash'', ''broken'', ''issue'', ''problem'',
      ''love'', ''hate'', ''like'', ''dislike'', ''amazing'', ''terrible'', ''great'',
      ''awful'']"

definition theme_vocabulary :: "(string \<times> string list) list" where
  "theme_vocabulary =
     [(''usability'',
         [''easy'', ''difficult'', ''confusing'', ''intuitive'', ''simple'', ''complicated'']),
      (''performance'',
         [''fast'', ''slow'', ''quick'', ''loading'', ''responsive'', ''laggy'']),
      (''design'',
         [''design'', ''interface'', ''layout'', ''navigation'', ''menu'', ''button'']),
      (''functionality'',
         [''search'', ''find'', ''discover'', ''browse'', ''filter'', ''sort'']),
      (''personalization'',
         [''recommendation'', ''suggest'', ''personalize'', ''relevant'', ''accurate'']),
      (''technical_issues'',
         [''bug'', ''error'', ''crash'', ''broken'', ''issue'', ''problem'']),
      (''sentiment'',
         [''love'', ''hate'', ''like'', ''dislike'', ''amazing'', ''terrible'', ''great'',
          ''awful''])]"

text \<open>The first loop: the vocabulary words of every present text, in reading order.\<close>

definition found_keywords :: "string option \<Rightarrow> string list" where
  "found_keywords fb =
     (case fb of
        None \<Rightarrow> []
      | Some text \<Rightarrow> filter (\<lambda>word. word \<in> set ux_keywords) (findall_words (lower text)))"

definition all_keywords :: "string option list \<Rightarrow> string list" where
  "all_keywords fbs = concat (map found_keywords fbs)"

text \<open>
  The second loop: a category's count sums \<^verbatim>\<open>common_themes.get(keyword, 0)\<close>, and a
  category enters the dict when that sum is positive.
\<close>

definition categorize :: "(string \<times> nat) list \<Rightarrow> (string \<times> nat) list" where
  "categorize common_themes =
     filter (\<lambda>cv. snd cv > 0)
       (map (\<lambda>ck. (fst ck, sum_list (map (\<lambda>keyword. dict_get common_themes keyword 0) (snd ck))))
          theme_vocabulary)"

definition extract_themes :: "int \<Rightarrow> analyzer \<Rightarrow> theme_result option \<times> analyzer" where
  "extract_themes min_frequency st =
     (case feedback_data st of
        None \<Rightarrow> (None, st)
      | Some df \<Rightarrow>
          (let kws = all_keywords (feedback_col df);
               keyword_counts = Counter kws;
               common_themes = filter (\<lambda>kv. int (snd kv) \<ge> min_frequency) keyword_counts;
               r = \<lparr>common_keywords = common_themes,
                    theme_categories = categorize common_themes,
                    total_keywords_found = length kws\<rparr>
           in (Some r,
               st\<lparr>analysis_results := (analysis_results st)\<lparr>theme_analysis := Some r\<rparr>\<rparr>)))"

subsection \<open>identify\_priority\_issues\<close>

definition problem_keywords :: "string list" where
  "problem_keywords =
     [''slow'', ''confusing'', ''difficult'', ''complicated'', ''broken'', ''error'',
      ''bug'', ''crash'', ''loading'', ''laggy'', ''terrible'', ''awful'', ''hate'',
      ''problem'', ''issue'', ''frustrating'', ''annoying'']"

text \<open>The rows of the frame whose \<^verbatim>\<open>sentiment\<close> is \<^verbatim>\<open>'negative'\<close>.\<close>

definition negative_rows :: "string option list \<Rightarrow> sentiment list \<Rightarrow> string option list" where
  "negative_rows fbs sents = map fst (filter (\<lambda>row. snd row = Negative) (zip fbs sents))"

definition negative_keywords :: "string option list \<Rightarrow> string list" where
  "negative_keywords negative_feedback =
     concat (map (\<lambda>fb. case fb of None \<Rightarrow> [] | Some text \<Rightarrow> findall_words (lower text))
               negative_feedback)"

text \<open>
  The method reads the \<^verbatim>\<open>sentiment\<close> column of the frame: a frame loaded after the
  last sentiment analysis has none (KeyError). The early return for no negative row
  stores nothing in \<^verbatim>\<open>analysis_results\<close>.
\<close>

definition identify_priority_issues ::
  "analyzer \<Rightarrow> (py_error + priority_result option) \<times> analyzer" where
  "identify_priority_issues st =
     (if sentiment_analysis (analysis_results st) = None then (Inr None, st)
      else
        (case feedback_data st of
           None \<Rightarrow> (Inl TypeError, st)
         | Some df \<Rightarrow>
             (case sentiment_col df of
                None \<Rightarrow> (Inl KeyError, st)
              | Some sents \<Rightarrow>
                  (let negative_feedback = negative_rows (feedback_col df) sents
                   in if length negative_feedback = 0
                      then (Inr (Some NoNegativeFeedback), st)
                      else
                        (let negative_issues =
                               Counter (filter (\<lambda>kw. kw \<in> set problem_keywords)
                                          (negative_keywords negative_feedback));
                             priority =
                               map (\<lambda>ic.
                                      \<lparr>issue = fst ic, frequency = snd ic,
                                       percentage =
                                         py_round (real (snd ic)
                                                     / real (length (feedback_col df)) * 100) 1\<rparr>)
                                 (most_common 5 negative_issues)
                         in (Inr (Some (Ranked priority)),
                             st\<lparr>analysis_results :=
                                  (analysis_results st)
                                    \<lparr>priority_issues := Some (Ranked priority)\<rparr>\<rparr>))))))"

subsection \<open>generate\_insights\_report\<close>

text \<open>
  A finding is an f-string around the values it reports; the model keeps the kind of the
  finding and those values, not the rendered text. The time stamp of the report is left
  out. A recommendation is one of three fixed strings.
\<close>

datatype insight =
    StrongPositive real
  | HighNegative real
  | MostDiscussedTheme string nat
  | TopComplaint string real

record report =
  total_feedback :: nat
  summary_sentiment :: "(sentiment \<rightharpoonup> real) option"
  key_insights :: "insight list"
  recommendations :: "string list"

text \<open>\<^verbatim>\<open>max(items, key=...)\<close> keeps the first of several maximal entries.\<close>

definition max_by_count :: "(string \<times> nat) list \<Rightarrow> (string \<times> nat) option" where
  "max_by_count items =
     (case items of
        [] \<Rightarrow> None
      | x # xs \<Rightarrow> Some (foldl (\<lambda>best y. if snd y > snd best then y else best) x xs))"

definition sentiment_insights :: "sentiment_result \<Rightarrow> insight list" where
  "sentiment_insights s =
     (let pos_pct = (case percentages s Positive of None \<Rightarrow> 0 | Some p \<Rightarrow> p);
          neg_pct = (case percentages s Negative of None \<Rightarrow> 0 | Some p \<Rightarrow> p)
      in if pos_pct > 60 then [StrongPositive pos_pct]
         else if neg_pct > 30 then [HighNegative neg_pct]
         else [])"

definition theme_insights :: "theme_result \<Rightarrow> insight list" where
  "theme_insights t =
     (case max_by_count (theme_categories t) of
        None \<Rightarrow> []
      | Some top_theme \<Rightarrow> [MostDiscussedTheme (fst top_theme) (snd top_theme)])"

definition recommendation_for :: "string \<Rightarrow> string list" where
  "recommendation_for issue_type =
     (if issue_type \<in> set [''slow'', ''loading'', ''laggy'']
      then [''Investigate performance optimization opportunities'']
      else if issue_type \<in> set [''confusing'', ''difficult'', ''complicated'']
      then [''Consider UX/UI simplification and user testing'']
      else if issue_type \<in> set [''broken'', ''error'', ''bug'', ''crash'']
      then [''Prioritize bug fixes and technical stability improvements'']
      else [])"

text \<open>
  \<^verbatim>\<open>if issues and not isinstance(issues, dict)\<close>: the stored value is used when it is
  a non-empty list.
\<close>

definition issue_insights :: "priority_result \<Rightarrow> insight list \<times> string list" where
  "issue_insights issues =
     (case issues of
        NoNegativeFeedback \<Rightarrow> ([], [])
      | Ranked [] \<Rightarrow> ([], [])
      | Ranked (top_issue # rest) \<Rightarrow>
          ([TopComplaint (issue top_issue) (percentage top_issue)],
           recommendation_for (issue top_issue)))"

definition generate_insights_report :: "analyzer \<Rightarrow> py_error + report option" where
  "generate_insights_report st =
     (let res = analysis_results st
      in if sentiment_analysis res = None \<and> theme_analysis res = None
            \<and> priority_issues res = None
         then Inr None
         else
           (case feedback_data st of
              None \<Rightarrow> Inl TypeError
            | Some df \<Rightarrow>
                (let i1 = (case sentiment_analysis res of
                             None \<Rightarrow> [] | Some s \<Rightarrow> sentiment_insights s);
                     i2 = (case theme_analysis res of
                             None \<Rightarrow> [] | Some t \<Rightarrow> theme_insights t);
                     i3 = (case priority_issues res of
                             None \<Rightarrow> ([], []) | Some issues \<Rightarrow> issue_insights issues)
                 in Inr (Some \<lparr>total_feedback = length (feedback_col df),
                               summary_sentiment =
                                 map_option percentages (sentiment_analysis res),
                               key_insights = i1 @ i2 @ fst i3,
                               recommendations = snd i3\<rparr>))))"

section \<open>survey\_data\_processor.py: SurveyDataProcessor\<close>

text \<open>
  \<^verbatim>\<open>processed_data\<close> is assigned by \<^verbatim>\<open>clean_data\<close> only, which coerces every
  column whose lower-cased name contains \<^verbatim>\<open>rating\<close> to numbers
  (\<^verbatim>\<open>pd.to_numeric(..., errors='coerce')\<close>). The table therefore keeps these columns,
  the \<^verbatim>\<open>rating_columns\<close> of both methods, as columns of numbers, apart from the other
  columns, whose cells are numbers or text. \<open>None\<close> is the missing value NaN. All
  columns of a frame have the same number of rows.
\<close>

datatype cell = Num real | Str string

record survey_table =
  rating_cols :: "(string \<times> real option list) list"
  other_cols :: "(string \<times> cell option list) list"

definition wf_table :: "survey_table \<Rightarrow> nat \<Rightarrow> bool" where
  "wf_table t n =
     (list_all (\<lambda>c. length (snd c) = n) (rating_cols t)
      \<and> list_all (\<lambda>c. length (snd c) = n) (other_cols t))"

record satisfaction_metric =
  mean :: "real option"
  median :: "real option"
  count :: nat
  std :: "real option"
  satisfaction_rate :: "real option"
  nps_score :: "real option"

record segment_metric =
  segment_mean :: "real option"
  segment_count :: nat
  segment_satisfaction_rate :: "real option"

record processor =
  processed_data :: "survey_table option"
  satisfaction_metrics :: "(string \<times> satisfaction_metric) list option"
  segment_analysis :: "(cell option \<times> (string \<times> segment_metric) list) list option"

subsection \<open>The pandas reductions of a numeric column\<close>

text \<open>
  \<^verbatim>\<open>mean\<close>, \<^verbatim>\<open>median\<close>, \<^verbatim>\<open>std\<close> and \<^verbatim>\<open>max\<close> skip missing values and
  are NaN when nothing is left (\<^verbatim>\<open>std\<close>, with one degree of freedom removed, also
  for a single value); \<^verbatim>\<open>count\<close> counts the values present; a comparison with NaN is
  false; \<^verbatim>\<open>round\<close> of NaN is NaN.
\<close>

definition present :: "'a option list \<Rightarrow> 'a list" where
  "present col = List.map_filter id col"

definition col_mean :: "real option list \<Rightarrow> real option" where
  "col_mean col =
     (let vs = present col in if vs = [] then None else Some (sum_list vs / real (length vs)))"

definition col_median :: "real option list \<Rightarrow> real option" where
  "col_median col =
     (let vs = sort (present col); n = length vs
      in if n = 0 then None
         else if odd n then Some (vs ! (n div 2))
         else Some ((vs ! (n div 2 - 1) + vs ! (n div 2)) / 2))"

definition col_count :: "'a option list \<Rightarrow> nat" where
  "col_count col = length (present col)"

definition col_std :: "real option list \<Rightarrow> real option" where
  "col_std col =
     (let vs = present col; n = length vs
      in if n < 2 then None
         else (let m = sum_list vs / real n
               in Some (sqrt (sum_list (map (\<lambda>v. (v - m) ^ 2) vs) / real (n - 1)))))"

definition col_max :: "real option list \<Rightarrow> real option" where
  "col_max col = (case present col of [] \<Rightarrow> None | v # vs \<Rightarrow> Some (fold max vs v))"

definition nan_le :: "real option \<Rightarrow> real \<Rightarrow> bool" where
  "nan_le x b = (case x of None \<Rightarrow> False | Some v \<Rightarrow> v \<le> b)"

definition round_nan :: "real option \<Rightarrow> nat \<Rightarrow> real option" where
  "round_nan x n = map_option (\<lambda>v. py_round v n) x"

text \<open>\<^verbatim>\<open>(col >= b).sum()\<close> and \<^verbatim>\<open>(col <= b).sum()\<close>.\<close>

definition count_ge :: "real option list \<Rightarrow> real \<Rightarrow> nat" where
  "count_ge col b = length (filter (\<lambda>c. case c of None \<Rightarrow> False | Some v \<Rightarrow> v \<ge> b) col)"

definition count_le :: "real option list \<Rightarrow> real \<Rightarrow> nat" where
  "count_le col b = length (filter (\<lambda>c. case c of None \<Rightarrow> False | Some v \<Rightarrow> v \<le> b) col)"

subsection \<open>calculate\_satisfaction\_metrics\<close>

text \<open>
  The body of the loop for one rating column. A key the source does not set is \<open>None\<close>
  in the record. \<^verbatim>\<open>len(satisfied)\<close> and \<^verbatim>\<open>len(self.processed_data[col])\<close> are the
  number of rows of the column.
\<close>

definition column_metrics :: "real option list \<Rightarrow> satisfaction_metric" where
  "column_metrics col =
     (let m0 = \<lparr>mean = round_nan (col_mean col) 2,
                median = col_median col,
                count = col_count col,
                std = round_nan (col_std col) 2,
                satisfaction_rate = None,
                nps_score = None\<rparr>;
          m1 = (if nan_le (col_max col) 5
                then m0\<lparr>satisfaction_rate :=
                          Some (py_round (real (count_ge col 4) / real (length col) * 100) 1)\<rparr>
                else m0);
          m2 = (if nan_le (col_max col) 10
                then m1\<lparr>nps_score :=
                          Some (py_round
                                  (real_of_int (int (count_ge col 9) - int (count_le col 6))
                                     / real (length col) * 100) 1)\<rparr>
                else m1)
      in m2)"

definition calculate_satisfaction_metrics ::
  "processor \<Rightarrow> (string \<times> satisfaction_metric) list option \<times> processor" where
  "calculate_satisfaction_metrics st =
     (case processed_data st of
        None \<Rightarrow> (None, st)
      | Some t \<Rightarrow>
          (let metrics = map (\<lambda>c. (fst c, column_metrics (snd c))) (rating_cols t)
           in (Some metrics, st\<lparr>satisfaction_metrics := Some metrics\<rparr>)))"

subsection \<open>analyze\_by\_segments\<close>

definition lookup_column :: "survey_table \<Rightarrow> string \<Rightarrow> cell option list option" where
  "lookup_column t name =
     (case map_of (other_cols t) name of
        Some c \<Rightarrow> Some c
      | None \<Rightarrow> map_option (map (map_option Num)) (map_of (rating_cols t) name))"

text \<open>\<^verbatim>\<open>Series.unique()\<close>: the distinct values in order of first appearance, NaN among them.\<close>

fun unique :: "'a list \<Rightarrow> 'a list" where
  "unique [] = []"
| "unique (x # xs) = x # filter (\<lambda>y. y \<noteq> x) (unique xs)"

text \<open>
  \<^verbatim>\<open>frame[frame[segment_column] == segment]\<close>: the rows whose segment cell equals the
  segment; NaN equals nothing, itself included.
\<close>

definition in_segment :: "cell option \<Rightarrow> cell option \<Rightarrow> bool" where
  "in_segment segment c = (c \<noteq> None \<and> c = segment)"

definition segment_rows :: "cell option list \<Rightarrow> cell option \<Rightarrow> 'a list \<Rightarrow> 'a list" where
  "segment_rows segcol segment col =
     map snd (filter (\<lambda>row. in_segment segment (fst row)) (zip segcol col))"

definition segment_metrics ::
  "cell option list \<Rightarrow> cell option \<Rightarrow> real option list \<Rightarrow> segment_metric" where
  "segment_metrics segcol segment col =
     (let segment_data = segment_rows segcol segment col;
          len_segment_data = length (filter (in_segment segment) segcol)
      in \<lparr>segment_mean = round_nan (col_mean segment_data) 2,
          segment_count = col_count segment_data,
          segment_satisfaction_rate =
            (if nan_le (col_max segment_data) 5
             then Some (py_round (real (count_ge segment_data 4)
                                    / real len_segment_data * 100) 1)
             else None)\<rparr>)"

definition analyze_by_segments ::
  "string \<Rightarrow> processor \<Rightarrow>
     (py_error + (cell option \<times> (string \<times> segment_metric) list) list option) \<times> processor" where
  "analyze_by_segments segment_column st =
     (case processed_data st of
        None \<Rightarrow> (Inl AttributeError, st)
      | Some t \<Rightarrow>
          (case lookup_column t segment_column of
             None \<Rightarrow> (Inr None, st)
           | Some segcol \<Rightarrow>
               (let analysis =
                      map (\<lambda>segment.
                             (segment,
                              map (\<lambda>c. (fst c, segment_metrics segcol segment (snd c)))
                                (rating_cols t)))
                        (unique segcol)
                in (Inr (Some analysis), st\<lparr>segment_analysis := Some analysis\<rparr>))))"

section \<open>Properties\<close>

subsection \<open>Rounding and counters\<close>

lemma rint_error: "\<bar>real_of_int (rint x) - x\<bar> \<le> 1 / 2"
  unfolding rint_def Let_def by (auto; linarith)

lemma rint_zero: "rint 0 = 0"
  by (simp add: rint_def)

lemma py_round_zero: "py_round 0 n = 0"
  by (simp add: py_round_def rint_zero)

lemma counter_add_keys:
  "map fst (counter_add k c) = (if k \<in> fst ` set c then map fst c else map fst c @ [k])"
  by (induction c) (fastforce simp: image_iff)+

lemma counter_add_map_of:
  "map_of (counter_add k c) k' =
     (if k' = k then Some (case map_of c k of None \<Rightarrow> 1 | Some v \<Rightarrow> v + 1) else map_of c k')"
  by (induction c) (auto)

lemma Counter_snoc: "Counter (xs @ [x]) = counter_add x (Counter xs)"
  by (simp add: Counter_def)

lemma Counter_keys_set: "fst ` set (Counter xs) = set xs"
proof (induction xs rule: rev_induct)
  case Nil
  then show ?case by (simp add: Counter_def)
next
  case (snoc x xs)
  have "set (map fst (counter_add x (Counter xs))) = insert x (fst ` set (Counter xs))"
    by (auto simp: counter_add_keys)
  then show ?case using snoc by (simp add: Counter_snoc)
qed

lemma Counter_distinct: "distinct (map fst (Counter xs))"
proof (induction xs rule: rev_induct)
  case Nil
  then show ?case by (simp add: Counter_def)
next
  case (snoc x xs)
  then show ?case by (simp add: Counter_snoc counter_add_keys)
qed

lemma Counter_map_of:
  "map_of (Counter xs) k = (if k \<in> set xs then Some (count_list xs k) else None)"
proof (induction xs rule: rev_induct)
  case Nil
  then show ?case by (simp add: Counter_def)
next
  case (snoc x xs)
  then show ?case by (auto simp: Counter_snoc counter_add_map_of)
qed

lemma map_of_filter_distinct:
  assumes "distinct (map fst kvs)"
  shows "map_of (filter Q kvs) key =
           Option.bind (map_of kvs key) (\<lambda>n. if Q (key, n) then Some n else None)"
  using assms
proof (induction kvs)
  case Nil
  then show ?case by simp
next
  case (Cons e kvs)
  obtain k' n' where e: "e = (k', n')" by (cases e)
  show ?case
  proof (cases "key = k'")
    case True
    with Cons.prems e have "map_of kvs key = None"
      by (simp add: map_of_eq_None_iff)
    then have "map_of (filter Q kvs) key = None"
      by (auto simp: map_of_eq_None_iff)
    with True e show ?thesis by simp
  next
    case False
    with Cons e show ?thesis by simp
  qed
qed

lemma common_get:
  "dict_get (filter (\<lambda>kv. m \<le> int (snd kv)) (Counter kws)) k 0 =
     (let n = count_list kws k in if m \<le> int n then n else 0)"
  by (simp add: dict_get_def map_of_filter_distinct Counter_distinct Counter_map_of Let_def count_list_0_iff)

subsection \<open>extract\_themes: category totals and the threshold\<close>

lemma categorize_common:
  "categorize (filter (\<lambda>kv. m \<le> int (snd kv)) (Counter kws)) =
     filter (\<lambda>cv. 0 < snd cv)
       (map (\<lambda>ck. (fst ck,
                   sum_list (map (\<lambda>k. let n = count_list kws k in if m \<le> int n then n else 0)
                               (snd ck))))
          theme_vocabulary)"
  unfolding categorize_def by (simp only: common_get)

text \<open>
  Claim C1, as the code has it. \<^verbatim>\<open>extract_themes\<close> sums
  \<^verbatim>\<open>common_themes.get(keyword, 0)\<close>, the counts that passed the threshold: for every
  corpus and threshold, a category's total is the sum of the occurrence counts of those of
  its keywords whose count over the whole corpus is at least the threshold, and a category
  of total zero is left out. \<^verbatim>\<open>common_keywords\<close> holds the same keywords with their
  counts, and \<^verbatim>\<open>total_keywords_found\<close> is the number of occurrences before the
  threshold. For a threshold of at most 1 the totals are the raw counts.
\<close>

theorem extract_themes_totals_thresholded:
  assumes "feedback_data st = Some df"
  shows "\<exists>r. fst (extract_themes m st) = Some r
           \<and> theme_categories r =
               filter (\<lambda>cv. 0 < snd cv)
                 (map (\<lambda>ck. (fst ck,
                             sum_list
                               (map (\<lambda>k. let n = count_list (all_keywords (feedback_col df)) k
                                         in if m \<le> int n then n else 0)
                                  (snd ck))))
                    theme_vocabulary)
           \<and> map_of (common_keywords r) =
               (\<lambda>k. let n = count_list (all_keywords (feedback_col df)) k
                    in if 0 < n \<and> m \<le> int n then Some n else None)
           \<and> total_keywords_found r = length (all_keywords (feedback_col df))
           \<and> (m \<le> 1 \<longrightarrow>
                theme_categories r =
                  filter (\<lambda>cv. 0 < snd cv)
                    (map (\<lambda>ck. (fst ck,
                                sum_list (map (count_list (all_keywords (feedback_col df)))
                                            (snd ck))))
                       theme_vocabulary))"
proof -
  let ?kws = "all_keywords (feedback_col df)"
  let ?common = "filter (\<lambda>kv. m \<le> int (snd kv)) (Counter ?kws)"
  let ?r = "\<lparr>common_keywords = ?common, theme_categories = categorize ?common,
             total_keywords_found = length ?kws\<rparr>"
  have r: "fst (extract_themes m st) = Some ?r"
    using assms by (simp add: extract_themes_def Let_def)
  have c: "map_of ?common =
             (\<lambda>k. let n = count_list ?kws k in if 0 < n \<and> m \<le> int n then Some n else None)"
    by (rule ext)
       (simp add: map_of_filter_distinct Counter_distinct Counter_map_of Let_def count_list_0_iff)
  have raw: "m \<le> 1 \<Longrightarrow>
      (\<lambda>k. let n = count_list ?kws k in if m \<le> int n then n else 0) = count_list ?kws"
    by (rule ext) (auto simp: Let_def)
  show ?thesis
    using r c raw by (auto simp: categorize_common)
qed

text \<open>The theorem at one text and threshold 2.\<close>

theorem extract_themes_totals_thresholded_witness:
  "map_option theme_categories
     (fst (extract_themes 2 (load_feedback [Some ''Slow, slow... but fast!''] init_analyzer)))
     = Some [(''performance'', 2)]"
proof -
  let ?st = "load_feedback [Some ''Slow, slow... but fast!''] init_analyzer"
  have kws: "all_keywords [Some ''Slow, slow... but fast!''] = [''slow'', ''slow'', ''fast'']"
    by code_simp
  have fd: "feedback_data ?st = Some \<lparr>feedback_col = [Some ''Slow, slow... but fast!''],
               sentiment_col = None, sentiment_score_col = None\<rparr>"
    by (simp add: load_feedback_def)
  from extract_themes_totals_thresholded [OF fd, of 2]
  show ?thesis
    by (auto simp: kws theme_vocabulary_def)
qed

text \<open>
  Claim C1 as stated fails: with \<^verbatim>\<open>slow\<close> twice and \<^verbatim>\<open>fast\<close> once, the
  category \<^verbatim>\<open>performance\<close> totals 2 at threshold 2 and 3 at threshold 1.
\<close>

theorem extract_themes_threshold_counterexample:
  "map_option theme_categories
     (fst (extract_themes 2 (load_feedback [Some ''slow slow fast''] init_analyzer)))
     = Some [(''performance'', 2)]
   \<and> map_option theme_categories
     (fst (extract_themes 1 (load_feedback [Some ''slow slow fast''] init_analyzer)))
     = Some [(''performance'', 3)]
   \<and> map_option common_keywords
     (fst (extract_themes 2 (load_feedback [Some ''slow slow fast''] init_analyzer)))
     = Some [(''slow'', 2)]"
  by code_simp

subsection \<open>analyze\_sentiment: the percentages\<close>

lemma count_sentiments:
  "count_list xs Positive + count_list xs Negative + count_list xs Neutral = length xs"
proof (induction xs)
  case Nil
  then show ?case by simp
next
  case (Cons x xs)
  then show ?case by (cases x) simp_all
qed

lemma f64_zero: "f64 0 = 0"
  by (simp add: f64_def)

lemma f64_error: "\<bar>f64 x - x\<bar> \<le> \<bar>x\<bar> / 2 ^ 53"
proof (cases "x = 0")
  case True
  then show ?thesis by (simp add: f64_def)
next
  case False
  define e where "e = \<lfloor>log 2 \<bar>x\<bar>\<rfloor> - 52"
  define s where "s = 2 powr real_of_int e"
  have s: "s > 0" by (simp add: s_def)
  have fx: "f64 x = real_of_int (rint (x / s)) * s"
    using False by (simp add: f64_def e_def s_def Let_def)
  have "real_of_int e + 52 \<le> log 2 \<bar>x\<bar>"
    by (simp add: e_def)
  then have "2 powr (real_of_int e + 52) \<le> 2 powr (log 2 \<bar>x\<bar>)"
    by (simp only: powr_le_cancel_iff) 
  then have "s * 2 powr 52 \<le> \<bar>x\<bar>"
    using False by (simp add: s_def powr_add)
  then have sx: "s * 2 ^ 52 \<le> \<bar>x\<bar>"
    by (simp add: powr_numeral)
  have "f64 x - x = (real_of_int (rint (x / s)) - x / s) * s"
    using s by (simp add: fx field_simps)
  then have "\<bar>f64 x - x\<bar> = \<bar>real_of_int (rint (x / s)) - x / s\<bar> * s"
    using s by (simp add: abs_mult)
  also have "\<dots> \<le> 1 / 2 * s"
    by (rule mult_right_mono [OF rint_error]) (use s in simp)
  also have "\<dots> \<le> \<bar>x\<bar> / 2 ^ 53"
    using sx by simp
  finally show ?thesis .
qed

lemma f64_eval:
  fixes k :: nat
  assumes "2 ^ 52 \<le> \<bar>x\<bar> * 2 ^ k" and "\<bar>x\<bar> * 2 ^ k < 2 ^ 53"
  shows "f64 x = real_of_int (rint (x * 2 ^ k)) / 2 ^ k"
proof -
  have x: "x \<noteq> 0" using assms(1) by auto
  then have ax: "\<bar>x\<bar> > 0" by simp
  have l: "log 2 (\<bar>x\<bar> * 2 ^ k) = log 2 \<bar>x\<bar> + real k"
    using ax by (simp add: log_mult log_nat_power)
  have l52: "log 2 (2 ^ 52 :: real) = 52" and l53: "log 2 (2 ^ 53 :: real) = 53"
    by (subst log_nat_power; simp)+
  have "log 2 (2 ^ 52) \<le> log 2 (\<bar>x\<bar> * 2 ^ k)"
    using assms(1) ax by (subst log_le_cancel_iff) simp_all
  then have lo: "52 \<le> log 2 \<bar>x\<bar> + real k"
    unfolding l l52 .
  have "log 2 (\<bar>x\<bar> * 2 ^ k) < log 2 (2 ^ 53)"
    using assms(2) ax by (subst log_less_cancel_iff) simp_all
  then have hi: "log 2 \<bar>x\<bar> + real k < 53"
    unfolding l l53 .
  have "\<lfloor>log 2 \<bar>x\<bar>\<rfloor> = 52 - int k"
    using lo hi by (intro floor_unique) simp_all
  then have e: "\<lfloor>log 2 \<bar>x\<bar>\<rfloor> - 52 = - int k" by simp
  have p: "2 powr (- real k) = 1 / 2 ^ k"
    by (simp add: powr_minus powr_realpow inverse_eq_divide)
  show ?thesis
    using x by (simp add: f64_def e p Let_def)
qed

text \<open>
  One response of three: 1 / 3 * 100 is rounded to the double 33.3, which is
  \<open>2343279181116211 / 2 ^ 46\<close> and lies below 33.3. Twenty-three of eighty:
  23 / 80 * 100 is a double just below 28.75 and is rounded to 28.7.
\<close>

lemma third_in_binary64:
  "np_round (f64 (f64 (f64 1 / f64 3) * 100)) 1 = 2343279181116211 / 70368744177664"
proof -
  have a: "f64 1 = 1"
    by (subst f64_eval [of _ 52]) (simp_all add: rint_def)
  have b: "f64 3 = 3"
    by (subst f64_eval [of _ 51]) (simp_all add: rint_def)
  have q: "f64 (1 / 3) = 6004799503160661 / 18014398509481984"
    by (subst f64_eval [of _ 54]) (simp_all add: rint_def)
  have p: "f64 (6004799503160661 / 18014398509481984 * 100)
             = 2345624805922133 / 70368744177664"
    by (subst f64_eval [of _ 47]) (simp_all add: rint_def)
  have t: "f64 (2345624805922133 / 70368744177664 * 10 ^ 1)
             = 1466015503701333 / 4398046511104"
    by (subst f64_eval [of _ 44]) (simp_all add: rint_def)
  have r: "rint (1466015503701333 / 4398046511104) = 333"
    by (simp add: rint_def)
  have v: "f64 (333 / 10 ^ 1) = 2343279181116211 / 70368744177664"
    by (subst f64_eval [of _ 47]) (simp_all add: rint_def)
  show ?thesis
    unfolding np_round_def a b q p t r using v by simp
qed

lemma twenty_three_of_eighty_in_binary64:
  "np_round (f64 (f64 (f64 23 / f64 80) * 100)) 1 = f64 (287 / 10)"
proof -
  have a: "f64 23 = 23"
    by (subst f64_eval [of _ 48]) (simp_all add: rint_def)
  have b: "f64 80 = 80"
    by (subst f64_eval [of _ 46]) (simp_all add: rint_def)
  have q: "f64 (23 / 80) = 2589569785738035 / 9007199254740992"
    by (subst f64_eval [of _ 54]) (simp_all add: rint_def)
  have p: "f64 (2589569785738035 / 9007199254740992 * 100)
             = 8092405580431359 / 281474976710656"
    by (subst f64_eval [of _ 48]) (simp_all add: rint_def)
  have t: "f64 (8092405580431359 / 281474976710656 * 10 ^ 1)
             = 5057753487769599 / 17592186044416"
    by (subst f64_eval [of _ 44]) (simp_all add: rint_def)
  have r: "rint (5057753487769599 / 17592186044416) = 287"
    by (simp add: rint_def)
  show ?thesis
    unfolding np_round_def a b q p t r by simp
qed

lemma rint_nonneg: "0 \<le> x \<Longrightarrow> 0 \<le> rint x"
  by (auto simp: rint_def Let_def)

lemma f64_ratio:
  assumes "0 \<le> y" and "0 \<le> \<alpha>" and "y * \<alpha> \<le> x" and "x \<le> y * \<beta>"
  shows "y * (\<alpha> * (1 - 1 / 2 ^ 53)) \<le> f64 x \<and> f64 x \<le> y * (\<beta> * (1 + 1 / 2 ^ 53))"
proof -
  have x: "0 \<le> x"
    using assms(1-3) by (meson mult_nonneg_nonneg order_trans)
  have e: "\<bar>f64 x - x\<bar> \<le> x / 2 ^ 53"
    using f64_error [of x] x by simp
  have "x - x / 2 ^ 53 \<le> f64 x"
    using e unfolding abs_le_iff by linarith
  then have "x * (1 - 1 / 2 ^ 53) \<le> f64 x"
    by (simp add: algebra_simps)
  moreover have "(y * \<alpha>) * (1 - 1 / 2 ^ 53) \<le> x * (1 - 1 / 2 ^ 53)"
    by (rule mult_right_mono [OF assms(3)]) simp
  ultimately have "(y * \<alpha>) * (1 - 1 / 2 ^ 53) \<le> f64 x"
    by (rule order_trans [rotated])
  then have l: "y * (\<alpha> * (1 - 1 / 2 ^ 53)) \<le> f64 x"
    by (simp only: mult.assoc)
  have "f64 x \<le> x + x / 2 ^ 53"
    using e unfolding abs_le_iff by linarith
  then have "f64 x \<le> x * (1 + 1 / 2 ^ 53)"
    by (simp add: algebra_simps)
  moreover have "x * (1 + 1 / 2 ^ 53) \<le> (y * \<beta>) * (1 + 1 / 2 ^ 53)"
    by (rule mult_right_mono [OF assms(4)]) simp
  ultimately have "f64 x \<le> (y * \<beta>) * (1 + 1 / 2 ^ 53)"
    by (rule order_trans)
  then have "f64 x \<le> y * (\<beta> * (1 + 1 / 2 ^ 53))"
    by (simp only: mult.assoc)
  with l show ?thesis by simp
qed

lemma scale_bounds:
  fixes x y c \<alpha> \<beta> :: real
  assumes "y * \<alpha> \<le> x \<and> x \<le> y * \<beta>" and "0 \<le> c"
  shows "(y * c) * \<alpha> \<le> x * c" and "x * c \<le> (y * c) * \<beta>"
proof -
  have "(y * \<alpha>) * c \<le> x * c"
    using assms by (intro mult_right_mono) simp_all
  moreover have "(y * \<alpha>) * c = (y * c) * \<alpha>"
    by (simp add: ac_simps)
  ultimately show "(y * c) * \<alpha> \<le> x * c" by simp
  have "x * c \<le> (y * \<beta>) * c"
    using assms by (intro mult_right_mono) simp_all
  moreover have "(y * \<beta>) * c = (y * c) * \<beta>"
    by (simp add: ac_simps)
  ultimately show "x * c \<le> (y * c) * \<beta>" by simp
qed

lemma scaled_tenths_close:
  fixes k n :: nat
  assumes "0 < n" and "k \<le> n"
  shows "\<bar>f64 (f64 (f64 (f64 (real k) / f64 (real n)) * 100) * 10 ^ 1)
          - 1000 * real k / real n\<bar> \<le> 1 / 100
       \<and> 0 \<le> f64 (f64 (f64 (f64 (real k) / f64 (real n)) * 100) * 10 ^ 1)"
proof -
  define lo :: real where "lo = 1 - 1 / 2 ^ 53"
  define hi :: real where "hi = 1 + 1 / 2 ^ 53"
  define y where "y = real k / real n"
  define a where "a = f64 (real k)"
  define b where "b = f64 (real n)"
  define q where "q = f64 (a / b)"
  define p where "p = f64 (q * 100)"
  define t where "t = f64 (p * 10 ^ 1)"
  have lo: "0 < lo" and hi: "0 < hi" by (simp_all add: lo_def hi_def)
  have y: "0 \<le> y" "y \<le> 1"
    using assms by (simp_all add: y_def)
  have n: "0 < real n" using assms(1) by simp
  have a: "real k * lo \<le> a \<and> a \<le> real k * hi"
    using f64_ratio [of "real k" 1 "real k" 1] by (simp add: a_def lo_def hi_def)
  have b: "real n * lo \<le> b \<and> b \<le> real n * hi"
    using f64_ratio [of "real n" 1 "real n" 1] by (simp add: b_def lo_def hi_def)
  have bpos: "0 < b"
    using b n lo by (meson less_le_trans mult_pos_pos)
  have a0: "0 \<le> a"
    using a lo by (meson mult_nonneg_nonneg of_nat_0_le_iff order_trans less_imp_le)
  have ah: "a \<le> real k * hi" and bl: "real n * lo \<le> b"
    using a b by simp_all
  have nlo: "0 < real n * lo"
    using n lo by simp
  have khi: "0 \<le> real k * hi"
    using hi by simp
  have "a / b \<le> (real k * hi) / (real n * lo)"
    by (rule frac_le [OF khi ah nlo bl])
  then have dh: "a / b \<le> y * (hi / lo)"
    by (simp add: y_def)
  have klo: "0 \<le> real k * lo"
    using lo by simp
  have al: "real k * lo \<le> a" and bh: "b \<le> real n * hi"
    using a b by simp_all
  have "(real k * lo) / (real n * hi) \<le> a / b"
    by (rule frac_le [OF a0 al bpos bh])
  then have dl: "y * (lo / hi) \<le> a / b"
    by (simp add: y_def)
  have q: "y * (lo / hi * lo) \<le> q \<and> q \<le> y * (hi / lo * hi)"
    using f64_ratio [OF y(1) _ dl dh] lo hi by (simp add: q_def lo_def hi_def)
  have q1: "(y * 100) * (lo / hi * lo) \<le> q * 100" and q2: "q * 100 \<le> (y * 100) * (hi / lo * hi)"
    by (rule scale_bounds [OF q]; simp)+
  have y100: "0 \<le> y * 100" using y by simp
  have c1: "0 \<le> lo / hi * lo" using lo hi by simp
  have p: "(y * 100) * (lo / hi * lo * lo) \<le> p \<and> p \<le> (y * 100) * (hi / lo * hi * hi)"
    using f64_ratio [OF y100 c1 q1 q2] by (simp add: p_def lo_def hi_def)
  have p10: "(y * 100 * 10) * (lo / hi * lo * lo) \<le> p * 10"
            "p * 10 \<le> (y * 100 * 10) * (hi / lo * hi * hi)"
    by (rule scale_bounds [OF p]; simp)+
  have y10: "y * 100 * 10 = y * 1000" by simp
  have p1: "(y * 1000) * (lo / hi * lo * lo) \<le> p * 10 ^ 1"
    and p2: "p * 10 ^ 1 \<le> (y * 1000) * (hi / lo * hi * hi)"
    using p10 unfolding y10 by simp_all
  have y1000: "0 \<le> y * 1000" using y by simp
  have c2: "0 \<le> lo / hi * lo * lo" using lo hi by simp
  have t: "(y * 1000) * (lo / hi * lo * lo * lo) \<le> t \<and> t \<le> (y * 1000) * (hi / lo * hi * hi * hi)"
    using f64_ratio [OF y1000 c2 p1 p2] by (simp add: t_def lo_def hi_def)
  have cl: "1 - 1 / 10 ^ 5 \<le> lo / hi * lo * lo * lo"
    by (simp add: lo_def hi_def)
  have ch: "hi / lo * hi * hi * hi \<le> 1 + 1 / 10 ^ 5"
    by (simp add: lo_def hi_def)
  have "(y * 1000) * (1 - 1 / 10 ^ 5) \<le> (y * 1000) * (lo / hi * lo * lo * lo)"
    by (rule mult_left_mono [OF cl y1000])
  then have tl: "y * 1000 - 1 / 100 \<le> t"
    using t y by simp
  have "(y * 1000) * (hi / lo * hi * hi * hi) \<le> (y * 1000) * (1 + 1 / 10 ^ 5)"
    by (rule mult_left_mono [OF ch y1000])
  then have th: "t \<le> y * 1000 + 1 / 100"
    using t y by simp
  have t0: "0 \<le> t"
    using t y1000 c2 lo by (meson mult_nonneg_nonneg order_trans less_imp_le)
  have "\<bar>t - y * 1000\<bar> \<le> 1 / 100"
    using tl th by linarith
  moreover have "y * 1000 = 1000 * real k / real n"
    by (simp add: y_def)
  ultimately have "\<bar>t - 1000 * real k / real n\<bar> \<le> 1 / 100"
    by simp
  with t0 show ?thesis
    by (simp add: t_def p_def q_def a_def b_def)
qed

lemma absent_category_binary64:
  "np_round (f64 (f64 (f64 0 / f64 (real n)) * 100)) d = 0"
  by (simp add: np_round_def f64_zero rint_zero)

lemma percentages_f64_sum:
  "sum_list (dict_values (percentages_f64 xs)) =
     np_round (f64 (f64 (f64 (real (count_list xs Positive)) / f64 (real (length xs))) * 100)) 1
     + np_round (f64 (f64 (f64 (real (count_list xs Negative)) / f64 (real (length xs))) * 100)) 1
     + np_round (f64 (f64 (f64 (real (count_list xs Neutral)) / f64 (real (length xs))) * 100)) 1"
proof -
  have z: "\<And>c. c \<notin> set xs \<Longrightarrow>
      np_round (f64 (f64 (f64 (real (count_list xs c)) / f64 (real (length xs))) * 100)) 1 = 0"
    using absent_category_binary64 [of "length xs" 1] by simp
  show ?thesis
    unfolding dict_values_def percentages_f64_def value_counts_def
    by (simp add: List.map_filter_simps absent_category_binary64)
qed

lemma rounded_tenths:
  fixes k n :: nat
  assumes "0 < n" and "k \<le> n"
  shows "\<exists>R::int. 0 \<le> R
           \<and> \<bar>real_of_int R - 1000 * real k / real n\<bar> \<le> 51 / 100
           \<and> \<bar>np_round (f64 (f64 (f64 (real k) / f64 (real n)) * 100)) 1 - real_of_int R / 10\<bar>
               \<le> real_of_int R / 10 / 2 ^ 53"
proof -
  define t where "t = f64 (f64 (f64 (f64 (real k) / f64 (real n)) * 100) * 10 ^ 1)"
  define R where "R = rint t"
  have t: "\<bar>t - 1000 * real k / real n\<bar> \<le> 1 / 100" and t0: "0 \<le> t"
    using scaled_tenths_close [OF assms] by (simp_all add: t_def)
  have R0: "0 \<le> R"
    unfolding R_def by (rule rint_nonneg [OF t0])
  have "\<bar>real_of_int R - t\<bar> \<le> 1 / 2"
    unfolding R_def by (rule rint_error)
  with t have c: "\<bar>real_of_int R - 1000 * real k / real n\<bar> \<le> 51 / 100"
    by linarith
  have v: "np_round (f64 (f64 (f64 (real k) / f64 (real n)) * 100)) 1
             = f64 (real_of_int R / 10)"
    by (simp add: np_round_def R_def t_def)
  have "\<bar>f64 (real_of_int R / 10) - real_of_int R / 10\<bar> \<le> \<bar>real_of_int R / 10\<bar> / 2 ^ 53"
    by (rule f64_error)
  then have "\<bar>f64 (real_of_int R / 10) - real_of_int R / 10\<bar> \<le> real_of_int R / 10 / 2 ^ 53"
    using R0 by simp
  with R0 c v show ?thesis by auto
qed

lemma three_errors:
  fixes v1 v2 v3 a1 a2 a3 e1 e2 e3 :: real
  assumes "\<bar>v1 - a1\<bar> \<le> e1" and "\<bar>v2 - a2\<bar> \<le> e2" and "\<bar>v3 - a3\<bar> \<le> e3"
  shows "\<bar>(v1 + v2 + v3) - (a1 + a2 + a3)\<bar> \<le> e1 + e2 + e3"
  using assms by linarith

lemma binary64_percentages_bound:
  fixes xs :: "sentiment list"
  assumes "xs \<noteq> []"
  shows "\<bar>sum_list (dict_values (percentages_f64 xs)) - 100\<bar> \<le> 1 / 10 + 1 / 2 ^ 46"
proof -
  let ?n = "length xs"
  let ?V = "\<lambda>c. np_round (f64 (f64 (f64 (real (count_list xs c)) / f64 (real ?n)) * 100)) 1"
  have n: "0 < ?n" using assms by simp
  have le: "\<And>c. count_list xs c \<le> ?n"
    by (rule count_le_length)
  obtain Rp where Rp: "0 \<le> Rp"
      "\<bar>real_of_int Rp - 1000 * real (count_list xs Positive) / real ?n\<bar> \<le> 51 / 100"
      "\<bar>?V Positive - real_of_int Rp / 10\<bar> \<le> real_of_int Rp / 10 / 2 ^ 53"
    using rounded_tenths [OF n le [of Positive]] by blast
  obtain Rn where Rn: "0 \<le> Rn"
      "\<bar>real_of_int Rn - 1000 * real (count_list xs Negative) / real ?n\<bar> \<le> 51 / 100"
      "\<bar>?V Negative - real_of_int Rn / 10\<bar> \<le> real_of_int Rn / 10 / 2 ^ 53"
    using rounded_tenths [OF n le [of Negative]] by blast
  obtain Ru where Ru: "0 \<le> Ru"
      "\<bar>real_of_int Ru - 1000 * real (count_list xs Neutral) / real ?n\<bar> \<le> 51 / 100"
      "\<bar>?V Neutral - real_of_int Ru / 10\<bar> \<le> real_of_int Ru / 10 / 2 ^ 53"
    using rounded_tenths [OF n le [of Neutral]] by blast
  have "real (count_list xs Positive + count_list xs Negative + count_list xs Neutral) = real ?n"
    by (simp only: count_sentiments)
  then have e: "1000 * real (count_list xs Positive) / real ?n
                + 1000 * real (count_list xs Negative) / real ?n
                + 1000 * real (count_list xs Neutral) / real ?n = 1000"
    using n by (simp add: field_simps)
  have "real_of_int (Rp + Rn + Ru - 1000)
          = (real_of_int Rp - 1000 * real (count_list xs Positive) / real ?n)
          + (real_of_int Rn - 1000 * real (count_list xs Negative) / real ?n)
          + (real_of_int Ru - 1000 * real (count_list xs Neutral) / real ?n)"
    using e by simp
  then have "\<bar>real_of_int (Rp + Rn + Ru - 1000)\<bar> \<le> 153 / 100"
    using Rp(2) Rn(2) Ru(2) by linarith
  then have "\<bar>real_of_int (Rp + Rn + Ru - 1000)\<bar> < 2"
    by linarith
  then have "\<bar>Rp + Rn + Ru - 1000\<bar> < 2"
    by linarith
  then have S: "999 \<le> Rp + Rn + Ru" "Rp + Rn + Ru \<le> 1001"
    by linarith+
  define S where "S = real_of_int (Rp + Rn + Ru)"
  have S1: "999 \<le> S" "S \<le> 1001"
    using S by (simp_all add: S_def)
  have Ssum: "S / 10 = real_of_int Rp / 10 + real_of_int Rn / 10 + real_of_int Ru / 10"
    by (simp add: S_def)
  have Serr: "S / 10 / 2 ^ 53 = real_of_int Rp / 10 / 2 ^ 53 + real_of_int Rn / 10 / 2 ^ 53
                                + real_of_int Ru / 10 / 2 ^ 53"
    by (simp add: S_def add_divide_distrib)
  have "\<bar>(?V Positive + ?V Negative + ?V Neutral) - S / 10\<bar> \<le> S / 10 / 2 ^ 53"
    by (subst Serr, subst Ssum) (rule three_errors [OF Rp(3) Rn(3) Ru(3)])
  moreover have "S / 10 / 2 ^ 53 \<le> 1 / 2 ^ 46"
    using S1 by simp
  moreover have "\<bar>S / 10 - 100\<bar> \<le> 1 / 10"
    using S1 by linarith
  ultimately have "\<bar>(?V Positive + ?V Negative + ?V Neutral) - 100\<bar> \<le> 1 / 10 + 1 / 2 ^ 46"
    by linarith
  then show ?thesis
    by (simp only: percentages_f64_sum)
qed

text \<open>
  Claim C7, as the code has it. For every non-empty response set \<^verbatim>\<open>analyze_sentiment\<close>
  returns its result, and the percentages of the categories, computed in binary64 from the
  sentiment column it writes (each count over the number of responses, times 100, rounded
  to one decimal), sum to 100 within 0.1 and the representation error of the three
  doubles, which is below \<open>1 / 2 ^ 46\<close>: every percentage is the double nearest to a whole
  number of tenths, and these whole numbers sum to 999, 1000 or 1001. The sum is the exact
  sum of the three doubles.
\<close>

theorem sentiment_percentages_sum_binary64:
  assumes "feedback_data st = Some df" and "feedback_col df \<noteq> []"
  shows "\<exists>r df' sents.
           fst (analyze_sentiment score st) = Inr (Some r)
         \<and> feedback_data (snd (analyze_sentiment score st)) = Some df'
         \<and> sentiment_col df' = Some sents
         \<and> length sents = length (feedback_col df)
         \<and> distribution r = value_counts sents
         \<and> dom (percentages_f64 sents) = dom (distribution r)
         \<and> \<bar>sum_list (dict_values (percentages_f64 sents)) - 100\<bar> \<le> 1 / 10 + 1 / 2 ^ 46"
proof -
  let ?sents = "map fst (map (score_feedback score) (feedback_col df))"
  have ne: "?sents \<noteq> []" using assms(2) by simp
  have b: "\<bar>sum_list (dict_values (percentages_f64 ?sents)) - 100\<bar> \<le> 1 / 10 + 1 / 2 ^ 46"
    by (rule binary64_percentages_bound [OF ne])
  have d: "dom (percentages_f64 ?sents) = dom (value_counts ?sents)"
    by (auto simp: percentages_f64_def dom_def)
  show ?thesis
    using assms b d by (simp add: analyze_sentiment_def Let_def)
qed

text \<open>
  One positive, one negative and one absent text: each category has the double 33.3, which
  is below 33.3, and the sum of the three is within the bound.
\<close>

theorem sentiment_percentages_sum_binary64_witness:
  "\<exists>r. fst (analyze_sentiment (\<lambda>t. if t = ''good'' then 1 else - 1)
             (load_feedback [Some ''good'', Some ''bad'', None] init_analyzer)) = Inr (Some r)
       \<and> distribution r = value_counts [Positive, Negative, Neutral]
       \<and> sum_list (dict_values (percentages_f64 [Positive, Negative, Neutral]))
           = 7029837543348633 / 70368744177664
       \<and> \<bar>sum_list (dict_values (percentages_f64 [Positive, Negative, Neutral])) - 100\<bar>
           \<le> 1 / 10 + 1 / 2 ^ 46"
proof -
  let ?sc = "\<lambda>t::string. if t = ''good'' then 1 else - 1 :: real"
  let ?df = "\<lparr>feedback_col = [Some ''good'', Some ''bad'', None], sentiment_col = None,
              sentiment_score_col = None\<rparr>"
  let ?st = "load_feedback [Some ''good'', Some ''bad'', None] init_analyzer"
  have fd: "feedback_data ?st = Some ?df"
    by (simp add: load_feedback_def)
  have ne: "feedback_col ?df \<noteq> []" by simp
  from sentiment_percentages_sum_binary64 [OF fd ne, of ?sc]
  obtain r df' sents where r: "fst (analyze_sentiment ?sc ?st) = Inr (Some r)"
    and f: "feedback_data (snd (analyze_sentiment ?sc ?st)) = Some df'"
    and c: "sentiment_col df' = Some sents"
    and d: "distribution r = value_counts sents"
    and s: "\<bar>sum_list (dict_values (percentages_f64 sents)) - 100\<bar> \<le> 1 / 10 + 1 / 2 ^ 46"
    by blast
  have "feedback_data (snd (analyze_sentiment ?sc ?st))
          = Some \<lparr>feedback_col = [Some ''good'', Some ''bad'', None],
                  sentiment_col = Some [Positive, Negative, Neutral],
                  sentiment_score_col = Some [1, - 1, 0]\<rparr>"
    by (simp add: analyze_sentiment_def load_feedback_def init_analyzer_def Let_def
          score_feedback_def classify_def)
  with f c have sents: "sents = [Positive, Negative, Neutral]"
    by auto
  have v: "sum_list (dict_values (percentages_f64 [Positive, Negative, Neutral]))
             = 7029837543348633 / 70368744177664"
    using third_in_binary64
    by (simp add: dict_values_def percentages_f64_def value_counts_def List.map_filter_simps)
  show ?thesis
    using r d s v unfolding sents by blast
qed

text \<open>
  Claim C7 as stated fails: with one positive, one negative and one neutral response the
  three percentages are the double 33.3 each, and their sum is more than 0.1 away from 100.
\<close>

theorem percentages_exceed_tolerance_counterexample:
  "feedback_data (snd (analyze_sentiment (\<lambda>t. if t = ''good'' then 1 else - 1)
                         (load_feedback [Some ''good'', Some ''bad'', None] init_analyzer)))
     = Some \<lparr>feedback_col = [Some ''good'', Some ''bad'', None],
             sentiment_col = Some [Positive, Negative, Neutral],
             sentiment_score_col = Some [1, - 1, 0]\<rparr>
   \<and> dict_values (percentages_f64 [Positive, Negative, Neutral])
       = [2343279181116211 / 70368744177664, 2343279181116211 / 70368744177664,
          2343279181116211 / 70368744177664]
   \<and> 2343279181116211 / 70368744177664 < (333 / 10 :: real)
   \<and> \<bar>sum_list (dict_values (percentages_f64 [Positive, Negative, Neutral])) - 100\<bar> > 1 / 10"
proof -
  have f: "feedback_data (snd (analyze_sentiment (\<lambda>t. if t = ''good'' then 1 else - 1)
                         (load_feedback [Some ''good'', Some ''bad'', None] init_analyzer)))
     = Some \<lparr>feedback_col = [Some ''good'', Some ''bad'', None],
             sentiment_col = Some [Positive, Negative, Neutral],
             sentiment_score_col = Some [1, - 1, 0]\<rparr>"
    by (simp add: analyze_sentiment_def load_feedback_def init_analyzer_def Let_def
          score_feedback_def classify_def)
  have d: "dict_values (percentages_f64 [Positive, Negative, Neutral])
       = [2343279181116211 / 70368744177664, 2343279181116211 / 70368744177664,
          2343279181116211 / 70368744177664]"
    using third_in_binary64
    by (simp add: dict_values_def percentages_f64_def value_counts_def List.map_filter_simps)
  show ?thesis
    unfolding d using f by simp
qed

subsection \<open>analyze\_sentiment: absent text\<close>

text \<open>
  Claim C9. A response whose text is absent gets the category neutral and the polarity 0,
  whatever the scoring function: for any two scoring functions the entries the two runs
  write at its row are the same, and the loop body on an absent text does not depend on the
  scoring function.
\<close>

theorem absent_text_neutral_without_scoring:
  assumes "feedback_data st = Some df"
    and "i < length (feedback_col df)"
    and "feedback_col df ! i = None"
  shows "\<exists>df1 df2 c1 c2 p1 p2.
           feedback_data (snd (analyze_sentiment score1 st)) = Some df1
         \<and> feedback_data (snd (analyze_sentiment score2 st)) = Some df2
         \<and> sentiment_col df1 = Some c1 \<and> sentiment_score_col df1 = Some p1
         \<and> sentiment_col df2 = Some c2 \<and> sentiment_score_col df2 = Some p2
         \<and> c1 ! i = Neutral \<and> p1 ! i = 0
         \<and> c2 ! i = c1 ! i \<and> p2 ! i = p1 ! i
         \<and> score_feedback score1 None = score_feedback score2 None"
  using assms
  by (auto simp: analyze_sentiment_def Let_def score_feedback_def)

text \<open>
  Two rows, the second absent, under a scorer that is always 1 and one that is always -1:
  the first row differs, the second is neutral with polarity 0 in both runs.
\<close>

theorem absent_text_neutral_without_scoring_witness:
  "\<exists>df1 df2 c1 c2 p1 p2.
       feedback_data (snd (analyze_sentiment (\<lambda>t. 1) (load_feedback [Some ''ok'', None] init_analyzer)))
         = Some df1
     \<and> feedback_data (snd (analyze_sentiment (\<lambda>t. - 1) (load_feedback [Some ''ok'', None] init_analyzer)))
         = Some df2
     \<and> sentiment_col df1 = Some c1 \<and> sentiment_score_col df1 = Some p1
     \<and> sentiment_col df2 = Some c2 \<and> sentiment_score_col df2 = Some p2
     \<and> c1 ! 1 = Neutral \<and> p1 ! 1 = 0
     \<and> c2 ! 1 = c1 ! 1 \<and> p2 ! 1 = p1 ! 1
     \<and> c1 ! 0 = Positive \<and> c2 ! 0 = Negative"
proof -
  let ?df = "\<lparr>feedback_col = [Some ''ok'', None], sentiment_col = None,
              sentiment_score_col = None\<rparr>"
  let ?st = "load_feedback [Some ''ok'', None] init_analyzer"
  have fd: "feedback_data ?st = Some ?df"
    by (simp add: load_feedback_def)
  have i: "1 < length (feedback_col ?df)" by simp
  have n: "feedback_col ?df ! 1 = None" by simp
  from absent_text_neutral_without_scoring [OF fd i n, of "\<lambda>t. 1" "\<lambda>t. - 1"]
  obtain df1 df2 c1 c2 p1 p2 where
    h: "feedback_data (snd (analyze_sentiment (\<lambda>t. 1) ?st)) = Some df1"
       "feedback_data (snd (analyze_sentiment (\<lambda>t. - 1) ?st)) = Some df2"
       "sentiment_col df1 = Some c1" "sentiment_score_col df1 = Some p1"
       "sentiment_col df2 = Some c2" "sentiment_score_col df2 = Some p2"
       "c1 ! 1 = Neutral" "p1 ! 1 = 0" "c2 ! 1 = c1 ! 1" "p2 ! 1 = p1 ! 1"
    by blast
  have "c1 ! 0 = Positive" "c2 ! 0 = Negative"
    using h(1,2,3,5)
    by (auto simp: analyze_sentiment_def load_feedback_def Let_def score_feedback_def classify_def)
  with h show ?thesis by blast
qed

subsection \<open>analyze\_sentiment: the empty response list\<close>

text \<open>
  Claim C10. On a loaded empty list \<^verbatim>\<open>analyze_sentiment\<close> raises ZeroDivisionError
  (the mean polarity divides by the number of responses); it returns a result structure
  exactly when a non-empty list is loaded, raises exactly when the loaded list is empty,
  and returns \<open>None\<close> exactly when nothing is loaded.
\<close>

theorem analyze_sentiment_needs_responses:
  "fst (analyze_sentiment score (load_feedback [] st)) = Inl ZeroDivisionError
   \<and> ((\<exists>r. fst (analyze_sentiment score st) = Inr (Some r))
        = (\<exists>df. feedback_data st = Some df \<and> feedback_col df \<noteq> []))
   \<and> ((fst (analyze_sentiment score st) = Inl ZeroDivisionError)
        = (\<exists>df. feedback_data st = Some df \<and> feedback_col df = []))
   \<and> ((fst (analyze_sentiment score st) = Inr None) = (feedback_data st = None))"
  by (cases "feedback_data st")
     (auto simp: analyze_sentiment_def load_feedback_def Let_def)

subsection \<open>generate\_insights\_report: the sentiment rules\<close>

lemma theme_insights_kind:
  "StrongPositive p \<notin> set (theme_insights t)" "HighNegative p \<notin> set (theme_insights t)"
  "TopComplaint k p \<notin> set (theme_insights t)"
  by (auto simp: theme_insights_def split: option.splits)

lemma issue_insights_kind:
  "StrongPositive p \<notin> set (fst (issue_insights ps))"
  "HighNegative p \<notin> set (fst (issue_insights ps))"
  by (auto simp: issue_insights_def split: priority_result.splits list.splits)

lemma sentiment_insights_kind:
  "TopComplaint k p \<notin> set (sentiment_insights s)"
  by (auto simp: sentiment_insights_def Let_def)

lemma report_key_insights:
  assumes "generate_insights_report st = Inr (Some rep)"
  shows "key_insights rep =
           (case sentiment_analysis (analysis_results st) of
              None \<Rightarrow> [] | Some s \<Rightarrow> sentiment_insights s)
           @ (case theme_analysis (analysis_results st) of
                None \<Rightarrow> [] | Some t \<Rightarrow> theme_insights t)
           @ fst (case priority_issues (analysis_results st) of
                    None \<Rightarrow> ([], []) | Some issues \<Rightarrow> issue_insights issues)"
    and "recommendations rep =
           snd (case priority_issues (analysis_results st) of
                  None \<Rightarrow> ([], []) | Some issues \<Rightarrow> issue_insights issues)"
  using assms
  by (auto simp: generate_insights_report_def Let_def split: if_splits option.splits)

text \<open>
  Claim C3, as the code has it. The two sentiment rules are the branches of one
  \<^verbatim>\<open>if\<close>/\<^verbatim>\<open>elif\<close>: the report has the strong positive finding exactly when the
  positive percentage is above 60, and the high negative finding exactly when the positive
  percentage is at most 60 and the negative percentage is above 30. The two never appear
  together.
\<close>

theorem sentiment_rules_exclusive:
  assumes "generate_insights_report st = Inr (Some rep)"
    and "sentiment_analysis (analysis_results st) = Some s"
    and "pos_pct = (case percentages s Positive of None \<Rightarrow> 0 | Some v \<Rightarrow> v)"
    and "neg_pct = (case percentages s Negative of None \<Rightarrow> 0 | Some v \<Rightarrow> v)"
  shows "(StrongPositive p \<in> set (key_insights rep)) = (p = pos_pct \<and> pos_pct > 60)
       \<and> (HighNegative q \<in> set (key_insights rep))
           = (q = neg_pct \<and> pos_pct \<le> 60 \<and> neg_pct > 30)
       \<and> \<not> (StrongPositive p \<in> set (key_insights rep)
              \<and> HighNegative q \<in> set (key_insights rep))"
proof -
  have k: "key_insights rep =
             sentiment_insights s
             @ (case theme_analysis (analysis_results st) of
                  None \<Rightarrow> [] | Some t \<Rightarrow> theme_insights t)
             @ fst (case priority_issues (analysis_results st) of
                      None \<Rightarrow> ([], []) | Some issues \<Rightarrow> issue_insights issues)"
    using report_key_insights(1) [OF assms(1)] assms(2) by simp
  have sp: "(StrongPositive p \<in> set (key_insights rep))
              = (StrongPositive p \<in> set (sentiment_insights s))"
    unfolding k by (auto simp: theme_insights_kind issue_insights_kind split: option.splits)
  have hn: "(HighNegative q \<in> set (key_insights rep))
              = (HighNegative q \<in> set (sentiment_insights s))"
    unfolding k by (auto simp: theme_insights_kind issue_insights_kind split: option.splits)
  have a: "(StrongPositive p \<in> set (key_insights rep)) = (p = pos_pct \<and> pos_pct > 60)"
    unfolding sp using assms(3,4) by (auto simp: sentiment_insights_def Let_def)
  have b: "(HighNegative q \<in> set (key_insights rep))
             = (q = neg_pct \<and> pos_pct \<le> 60 \<and> neg_pct > 30)"
    unfolding hn using assms(3,4) by (auto simp: sentiment_insights_def Let_def)
  show ?thesis
    using a b by auto
qed

lemma two_good_one_bad:
  fixes sc :: "string \<Rightarrow> real"
  defines "sc \<equiv> (\<lambda>t. if t = ''good'' then 1 else - 1)"
  defines "st1 \<equiv> snd (analyze_sentiment sc
                      (load_feedback [Some ''good'', Some ''good'', Some ''bad''] init_analyzer))"
  shows "\<exists>s. fst (analyze_sentiment sc
                  (load_feedback [Some ''good'', Some ''good'', Some ''bad''] init_analyzer))
                = Inr (Some s)
            \<and> analysis_results st1
                = \<lparr>sentiment_analysis = Some s, theme_analysis = None, priority_issues = None\<rparr>
            \<and> feedback_data st1
                = Some \<lparr>feedback_col = [Some ''good'', Some ''good'', Some ''bad''],
                        sentiment_col = Some [Positive, Positive, Negative],
                        sentiment_score_col = Some [1, 1, - 1]\<rparr>
            \<and> percentages s Positive = Some (667 / 10)
            \<and> percentages s Negative = Some (333 / 10)"
proof -
  have r1: "py_round (200 / 3) (Suc 0) = 667 / 10" "py_round (100 / 3) (Suc 0) = 333 / 10"
    by (simp_all add: py_round_def rint_def)
  show ?thesis
    unfolding st1_def sc_def
    by (simp add: analyze_sentiment_def load_feedback_def init_analyzer_def Let_def
          score_feedback_def classify_def value_counts_def r1)
qed

text \<open>
  Two positive responses and one negative: 66.7 percent positive, 33.3 percent negative,
  and the report has the strong positive finding alone.
\<close>

theorem sentiment_rules_exclusive_witness:
  "\<exists>rep. generate_insights_report
            (snd (analyze_sentiment (\<lambda>t. if t = ''good'' then 1 else - 1)
                    (load_feedback [Some ''good'', Some ''good'', Some ''bad''] init_analyzer)))
          = Inr (Some rep)
        \<and> StrongPositive (667 / 10) \<in> set (key_insights rep)
        \<and> HighNegative (333 / 10) \<notin> set (key_insights rep)"
proof -
  let ?sc = "\<lambda>t::string. if t = ''good'' then 1 else - 1 :: real"
  let ?st1 = "snd (analyze_sentiment ?sc
                     (load_feedback [Some ''good'', Some ''good'', Some ''bad''] init_analyzer))"
  from two_good_one_bad obtain s where
    a: "analysis_results ?st1
          = \<lparr>sentiment_analysis = Some s, theme_analysis = None, priority_issues = None\<rparr>"
    and f: "feedback_data ?st1
          = Some \<lparr>feedback_col = [Some ''good'', Some ''good'', Some ''bad''],
                  sentiment_col = Some [Positive, Positive, Negative],
                  sentiment_score_col = Some [1, 1, - 1]\<rparr>"
    and p: "percentages s Positive = Some (667 / 10)" "percentages s Negative = Some (333 / 10)"
    by blast
  obtain rep where rep: "generate_insights_report ?st1 = Inr (Some rep)"
    using a f by (simp add: generate_insights_report_def Let_def)
  have sa: "sentiment_analysis (analysis_results ?st1) = Some s"
    using a by simp
  have pp: "(667 / 10 :: real) = (case percentages s Positive of None \<Rightarrow> 0 | Some v \<Rightarrow> v)"
    and nn: "(333 / 10 :: real) = (case percentages s Negative of None \<Rightarrow> 0 | Some v \<Rightarrow> v)"
    using p by simp_all
  from sentiment_rules_exclusive [OF rep sa pp nn, of "667 / 10" "333 / 10"] rep
  show ?thesis by auto
qed

text \<open>
  Claim C3 as stated fails on that input: positive is above 60 and negative above 30, and
  the key insights are the strong positive finding only.
\<close>

theorem both_sentiment_rules_counterexample:
  "(case fst (analyze_sentiment (\<lambda>t. if t = ''good'' then 1 else - 1)
               (load_feedback [Some ''good'', Some ''good'', Some ''bad''] init_analyzer)) of
      Inr (Some s) \<Rightarrow>
        percentages s Positive = Some (667 / 10) \<and> percentages s Negative = Some (333 / 10)
    | _ \<Rightarrow> False)
   \<and> (case generate_insights_report
             (snd (analyze_sentiment (\<lambda>t. if t = ''good'' then 1 else - 1)
                     (load_feedback [Some ''good'', Some ''good'', Some ''bad''] init_analyzer))) of
        Inr (Some rep) \<Rightarrow> key_insights rep = [StrongPositive (667 / 10)]
      | _ \<Rightarrow> False)
   \<and> (667 / 10 :: real) > 60 \<and> (333 / 10 :: real) > 30"
proof -
  let ?sc = "\<lambda>t::string. if t = ''good'' then 1 else - 1 :: real"
  let ?st1 = "snd (analyze_sentiment ?sc
                     (load_feedback [Some ''good'', Some ''good'', Some ''bad''] init_analyzer))"
  from two_good_one_bad obtain s where
    r: "fst (analyze_sentiment ?sc
               (load_feedback [Some ''good'', Some ''good'', Some ''bad''] init_analyzer))
          = Inr (Some s)"
    and a: "analysis_results ?st1
          = \<lparr>sentiment_analysis = Some s, theme_analysis = None, priority_issues = None\<rparr>"
    and f: "feedback_data ?st1
          = Some \<lparr>feedback_col = [Some ''good'', Some ''good'', Some ''bad''],
                  sentiment_col = Some [Positive, Positive, Negative],
                  sentiment_score_col = Some [1, 1, - 1]\<rparr>"
    and p: "percentages s Positive = Some (667 / 10)" "percentages s Negative = Some (333 / 10)"
    by blast
  have "generate_insights_report ?st1
          = Inr (Some \<lparr>total_feedback = 3, summary_sentiment = Some (percentages s),
                       key_insights = [StrongPositive (667 / 10)], recommendations = []\<rparr>)"
    using a f p by (simp add: generate_insights_report_def Let_def sentiment_insights_def)
  then show ?thesis
    using r p by simp
qed

subsection \<open>identify\_priority\_issues: no negative feedback\<close>

lemma negative_rows_none:
  "Negative \<notin> set sents \<Longrightarrow> negative_rows fbs sents = []"
  by (auto simp: negative_rows_def filter_empty_conv dest: set_zip_rightD)

text \<open>
  When the analysis has run and no response is negative, \<^verbatim>\<open>identify_priority_issues\<close>
  returns the sentinel, which is not a ranked list (an empty one included) and not an
  error. The return at line 151 comes before the only assignment to
  \<^verbatim>\<open>analysis_results['priority_issues']\<close>, so the analyzer is left as it was: the
  sentinel is never stored, and what an earlier call stored stays.
\<close>

lemma sentinel_returned_not_stored:
  assumes "sentiment_analysis (analysis_results st) = Some sa"
    and "feedback_data st = Some df"
    and "sentiment_col df = Some sents"
    and "Negative \<notin> set sents"
  shows "identify_priority_issues st = (Inr (Some NoNegativeFeedback), st)
       \<and> (\<forall>ps. NoNegativeFeedback \<noteq> Ranked ps)"
  using assms by (simp add: identify_priority_issues_def negative_rows_none)

text \<open>
  \<^verbatim>\<open>generate_insights_report\<close> reads the stored value. With a ranked list left by an
  earlier call, the report made after a call that returned the sentinel names the top
  complaint of that list.
\<close>

lemma stale_ranking_reported:
  assumes "sentiment_analysis (analysis_results st) = Some sa"
    and "feedback_data st = Some df"
    and "sentiment_col df = Some sents"
    and "Negative \<notin> set sents"
    and "priority_issues (analysis_results st) = Some (Ranked (top_issue # rest))"
  shows "\<exists>rep. generate_insights_report (snd (identify_priority_issues st)) = Inr (Some rep)
           \<and> TopComplaint (issue top_issue) (percentage top_issue) \<in> set (key_insights rep)"
proof -
  have "snd (identify_priority_issues st) = st"
    using sentinel_returned_not_stored [OF assms(1-4)] by simp
  moreover obtain rep where rep: "generate_insights_report st = Inr (Some rep)"
    using assms(1,2) by (simp add: generate_insights_report_def Let_def)
  moreover have "TopComplaint (issue top_issue) (percentage top_issue) \<in> set (key_insights rep)"
    using report_key_insights(1) [OF rep] assms(5) by (simp add: issue_insights_def)
  ultimately show ?thesis by simp
qed

text \<open>
  Claim C6 on a reused analyzer. The first run has the one response \<^verbatim>\<open>crash\<close>, negative,
  and stores the ranked list with \<^verbatim>\<open>crash\<close> at 100 percent. The second run on the same
  analyzer has the one response \<^verbatim>\<open>fine\<close>, positive: \<^verbatim>\<open>identify_priority_issues\<close>
  returns the sentinel, and the report that follows still names \<^verbatim>\<open>crash\<close> as the top
  complaint of 100 percent of the users and recommends bug fixes.
\<close>

theorem sentinel_report_names_stale_complaint:
  "fst (identify_priority_issues
          (snd (analyze_sentiment (\<lambda>t. if t = ''crash'' then - 1 else 1)
             (load_feedback [Some ''fine'']
                (snd (identify_priority_issues
                   (snd (analyze_sentiment (\<lambda>t. if t = ''crash'' then - 1 else 1)
                      (load_feedback [Some ''crash''] init_analyzer)))))))))
     = Inr (Some NoNegativeFeedback)
   \<and> (case generate_insights_report
             (snd (identify_priority_issues
                (snd (analyze_sentiment (\<lambda>t. if t = ''crash'' then - 1 else 1)
                   (load_feedback [Some ''fine'']
                      (snd (identify_priority_issues
                         (snd (analyze_sentiment (\<lambda>t. if t = ''crash'' then - 1 else 1)
                            (load_feedback [Some ''crash''] init_analyzer)))))))))) of
        Inr (Some rep) \<Rightarrow>
          key_insights rep = [StrongPositive 100, TopComplaint ''crash'' 100]
          \<and> recommendations rep
              = [''Prioritize bug fixes and technical stability improvements'']
          \<and> total_feedback rep = 1
      | _ \<Rightarrow> False)"
proof -
  let ?sc = "\<lambda>t::string. if t = ''crash'' then - 1 else 1 :: real"
  let ?st1 = "snd (analyze_sentiment ?sc (load_feedback [Some ''crash''] init_analyzer))"
  let ?st2 = "snd (identify_priority_issues ?st1)"
  let ?st3 = "snd (analyze_sentiment ?sc (load_feedback [Some ''fine''] ?st2))"
  let ?crash = "\<lparr>issue = ''crash'', frequency = 1, percentage = 100\<rparr>"
  have p100: "py_round 100 (Suc 0) = 100"
    by (simp add: py_round_def rint_def)
  have toks: "filter (\<lambda>kw. kw \<in> set problem_keywords) (negative_keywords [Some ''crash''])
              = [''crash'']"
    by code_simp
  have f1: "feedback_data ?st1
              = Some \<lparr>feedback_col = [Some ''crash''], sentiment_col = Some [Negative],
                      sentiment_score_col = Some [- 1]\<rparr>"
    by (simp add: analyze_sentiment_def load_feedback_def init_analyzer_def Let_def
          score_feedback_def classify_def)
  have a1: "sentiment_analysis (analysis_results ?st1) \<noteq> None"
           "theme_analysis (analysis_results ?st1) = None"
    by (simp_all add: analyze_sentiment_def load_feedback_def init_analyzer_def Let_def)
  have p2: "priority_issues (analysis_results ?st2) = Some (Ranked [?crash])"
    and t2: "theme_analysis (analysis_results ?st2) = None"
    using a1
    by (auto simp: identify_priority_issues_def f1 negative_rows_def toks Counter_def
          most_common_def Let_def p100)
  have f3: "feedback_data ?st3
              = Some \<lparr>feedback_col = [Some ''fine''], sentiment_col = Some [Positive],
                      sentiment_score_col = Some [1]\<rparr>"
    by (simp add: analyze_sentiment_def load_feedback_def Let_def score_feedback_def
          classify_def)
  obtain s where s3: "sentiment_analysis (analysis_results ?st3) = Some s"
    and pos: "percentages s Positive = Some 100"
    by (simp add: analyze_sentiment_def load_feedback_def Let_def score_feedback_def
          classify_def value_counts_def p100)
  have p3: "priority_issues (analysis_results ?st3) = Some (Ranked [?crash])"
    and t3: "theme_analysis (analysis_results ?st3) = None"
    using p2 t2 by (simp_all add: analyze_sentiment_def load_feedback_def Let_def)
  have sc3: "sentiment_col \<lparr>feedback_col = [Some ''fine''], sentiment_col = Some [Positive],
                      sentiment_score_col = Some [1]\<rparr> = Some [Positive]"
    by simp
  have nn: "Negative \<notin> set [Positive]" by simp
  have r: "identify_priority_issues ?st3 = (Inr (Some NoNegativeFeedback), ?st3)"
    using sentinel_returned_not_stored [OF s3 f3 sc3 nn] by simp
  have "generate_insights_report ?st3
          = Inr (Some \<lparr>total_feedback = 1, summary_sentiment = Some (percentages s),
                       key_insights = [StrongPositive 100, TopComplaint ''crash'' 100],
                       recommendations
                         = [''Prioritize bug fixes and technical stability improvements'']\<rparr>)"
    using s3 pos p3 t3 f3
    by (simp add: generate_insights_report_def Let_def sentiment_insights_def
          issue_insights_def recommendation_for_def)
  with r show ?thesis by simp
qed

subsection \<open>Counter order and most\_common\<close>

lemma first_index_less:
  "k \<in> set xs \<Longrightarrow> length (takeWhile (\<lambda>w. w \<noteq> k) xs) < length xs"
  by (induction xs) auto

lemma first_index_snoc_old:
  "k \<in> set xs \<Longrightarrow> takeWhile (\<lambda>w. w \<noteq> k) (xs @ [x]) = takeWhile (\<lambda>w. w \<noteq> k) xs"
  by (rule takeWhile_append1 [of k]) simp_all

lemma first_index_snoc_new:
  "x \<notin> set xs \<Longrightarrow> length (takeWhile (\<lambda>w. w \<noteq> x) (xs @ [x])) = length xs"
  by (subst takeWhile_append2) auto

lemma Counter_keys_snoc:
  "map fst (Counter (xs @ [x])) =
     map fst (Counter xs) @ (if x \<in> set xs then [] else [x])"
  by (simp add: Counter_snoc counter_add_keys Counter_keys_set)

lemma Counter_keys_first_order:
  "sorted_wrt (\<lambda>a b. length (takeWhile (\<lambda>w. w \<noteq> a) xs) < length (takeWhile (\<lambda>w. w \<noteq> b) xs))
     (map fst (Counter xs))"
proof (induction xs rule: rev_induct)
  case Nil
  then show ?case by (simp add: Counter_def)
next
  case (snoc x xs)
  let ?K = "map fst (Counter xs)"
  have keys: "set ?K = set xs"
    using Counter_keys_set [of xs] by simp
  have old: "sorted_wrt (\<lambda>a b. length (takeWhile (\<lambda>w. w \<noteq> a) (xs @ [x]))
                              < length (takeWhile (\<lambda>w. w \<noteq> b) (xs @ [x]))) ?K"
    by (rule sorted_wrt_mono_rel [OF _ snoc.IH])
       (simp add: Counter_keys_set first_index_snoc_old)
  show ?case
  proof (cases "x \<in> set xs")
    case True
    with old show ?thesis by (simp add: Counter_keys_snoc)
  next
    case False
    have "\<And>a. a \<in> set xs \<Longrightarrow> length (takeWhile (\<lambda>w. w \<noteq> a) (xs @ [x]))
                        < length (takeWhile (\<lambda>w. w \<noteq> x) (xs @ [x]))"
      using False by (simp add: first_index_snoc_old first_index_snoc_new first_index_less)
    then have "\<forall>a\<in>set ?K. length (takeWhile (\<lambda>w. w \<noteq> a) (xs @ [x]))
                        < length (takeWhile (\<lambda>w. w \<noteq> x) (xs @ [x]))"
      unfolding keys by blast
    with old False show ?thesis
      by (simp add: Counter_keys_snoc sorted_wrt_append)
  qed
qed

lemma Counter_entry:
  "(k, v) \<in> set (Counter xs) \<Longrightarrow> k \<in> set xs \<and> v = count_list xs k"
proof -
  assume a: "(k, v) \<in> set (Counter xs)"
  then have "map_of (Counter xs) k = Some v"
    by (simp add: Counter_distinct)
  then show ?thesis
    by (simp add: Counter_map_of split: if_splits)
qed

lemma Counter_length: "length (Counter xs) = card (set xs)"
proof -
  have "card (set (map fst (Counter xs))) = length (map fst (Counter xs))"
    by (rule distinct_card [OF Counter_distinct])
  then show ?thesis
    using Counter_keys_set [of xs] by simp
qed

lemma insort_stable:
  fixes f :: "'a \<Rightarrow> int"
  assumes "sorted_wrt (\<lambda>a b. f a < f b \<or> (f a = f b \<and> R a b)) ys"
    and "\<forall>y\<in>set ys. R x y"
  shows "sorted_wrt (\<lambda>a b. f a < f b \<or> (f a = f b \<and> R a b)) (insort_key f x ys)"
  using assms
proof (induction ys)
  case Nil
  then show ?case by simp
next
  case (Cons y ys)
  show ?case
  proof (cases "f x \<le> f y")
    case True
    have "\<forall>z\<in>set ys. f y \<le> f z"
      using Cons.prems(1) by auto
    with True Cons.prems show ?thesis by force
  next
    case False
    then have "sorted_wrt (\<lambda>a b. f a < f b \<or> (f a = f b \<and> R a b)) (insort_key f x ys)"
      using Cons by simp
    with False Cons.prems show ?thesis
      by (auto simp: set_insort_key)
  qed
qed

lemma sort_key_stable_order:
  fixes f :: "'a \<Rightarrow> int"
  assumes "sorted_wrt R xs"
  shows "sorted_wrt (\<lambda>a b. f a < f b \<or> (f a = f b \<and> R a b)) (sort_key f xs)"
  using assms
proof (induction xs)
  case Nil
  then show ?case by simp
next
  case (Cons x xs)
  then show ?case
    by (simp add: insort_stable)
qed

lemma most_common_order:
  assumes "sorted_wrt R c"
  shows "sorted_wrt (\<lambda>a b. snd b < snd a \<or> (snd a = snd b \<and> R a b)) (most_common n c)"
proof -
  have "sorted_wrt (\<lambda>a b. - int (snd a) < - int (snd b)
                        \<or> (- int (snd a) = - int (snd b) \<and> R a b))
          (sort_key (\<lambda>kv. - int (snd kv)) c)"
    by (rule sort_key_stable_order [OF assms])
  then have "sorted_wrt (\<lambda>a b. snd b < snd a \<or> (snd a = snd b \<and> R a b))
          (sort_key (\<lambda>kv. - int (snd kv)) c)"
    by (rule sorted_wrt_mono_rel [rotated]) auto
  then show ?thesis
    unfolding most_common_def by (rule sorted_wrt_take)
qed

lemma most_common_set: "set (most_common n c) \<subseteq> set c"
  unfolding most_common_def using set_take_subset [of n "sort_key (\<lambda>kv. - int (snd kv)) c"]
  by simp

lemma most_common_length: "length (most_common n c) = min n (length c)"
  by (simp add: most_common_def min.commute)

lemma most_common_distinct:
  "distinct (map fst c) \<Longrightarrow> distinct (map fst (most_common n c))"
proof -
  assume d: "distinct (map fst c)"
  have "distinct (map fst (sort_key (\<lambda>kv. - int (snd kv)) c))"
    using d by (simp add: distinct_map)
  then show ?thesis
    unfolding most_common_def by (simp add: take_map [symmetric] distinct_take)
qed

lemma most_common_cut:
  assumes "distinct (map fst c)" and "sorted_wrt R c"
    and "b \<in> set c" and "fst b \<notin> fst ` set (most_common n c)"
    and "a \<in> set (most_common n c)"
  shows "snd b < snd a \<or> (snd a = snd b \<and> R a b)"
proof -
  let ?ys = "sort_key (\<lambda>kv. - int (snd kv)) c"
  have "sorted_wrt (\<lambda>a b. - int (snd a) < - int (snd b)
                        \<or> (- int (snd a) = - int (snd b) \<and> R a b)) ?ys"
    by (rule sort_key_stable_order [OF assms(2)])
  then have s: "sorted_wrt (\<lambda>a b. snd b < snd a \<or> (snd a = snd b \<and> R a b)) ?ys"
    by (rule sorted_wrt_mono_rel [rotated]) auto
  have "b \<in> set ?ys" using assms(3) by simp
  moreover have "b \<notin> set (take n ?ys)"
    using assms(4) unfolding most_common_def by force
  ultimately have "b \<in> set (drop n ?ys)"
    by (metis Un_iff append_take_drop_id set_append)
  moreover have "a \<in> set (take n ?ys)"
    using assms(5) by (simp add: most_common_def)
  moreover have "sorted_wrt (\<lambda>a b. snd b < snd a \<or> (snd a = snd b \<and> R a b))
                   (take n ?ys @ drop n ?ys)"
    using s by simp
  ultimately show ?thesis
    unfolding sorted_wrt_append by blast
qed

subsection \<open>identify\_priority\_issues: the ranked list\<close>

lemma identify_ranked:
  assumes "fst (identify_priority_issues st) = Inr (Some (Ranked ps))"
    and "feedback_data st = Some df"
  shows "\<exists>sents. sentiment_col df = Some sents
           \<and> ps = map (\<lambda>ic. \<lparr>issue = fst ic, frequency = snd ic,
                              percentage = py_round (real (snd ic)
                                             / real (length (feedback_col df)) * 100) 1\<rparr>)
                    (most_common 5
                       (Counter (filter (\<lambda>kw. kw \<in> set problem_keywords)
                                   (negative_keywords
                                      (negative_rows (feedback_col df) sents)))))"
  using assms
  by (auto simp: identify_priority_issues_def Let_def split: if_splits option.splits)

text \<open>
  Claim C5. The percentage of every retained priority issue is its frequency over the
  number of all loaded responses, times 100, rounded to one decimal; the number of negative
  responses does not enter.
\<close>

theorem priority_percentage_of_total:
  assumes "fst (identify_priority_issues st) = Inr (Some (Ranked ps))"
    and "feedback_data st = Some df"
    and "p \<in> set ps"
  shows "percentage p
           = py_round (real (frequency p) / real (length (feedback_col df)) * 100) 1"
proof -
  from identify_ranked [OF assms(1,2)] obtain sents where
    "ps = map (\<lambda>ic. \<lparr>issue = fst ic, frequency = snd ic,
                      percentage = py_round (real (snd ic)
                                     / real (length (feedback_col df)) * 100) 1\<rparr>)
            (most_common 5
               (Counter (filter (\<lambda>kw. kw \<in> set problem_keywords)
                           (negative_keywords (negative_rows (feedback_col df) sents)))))"
    by blast
  with assms(3) show ?thesis by auto
qed

text \<open>
  Claim C4, as the code has it. The ranked list counts the problem keywords in the texts of
  the negative responses only (\<open>toks\<close> is that stream of keyword occurrences, in reading
  order), holds each keyword once with its count, has five entries or all keywords if
  there are fewer, and is in descending order of count; among keywords of equal count the
  one met first in the texts comes first (the insertion order of the counter, kept by the
  stable sort of \<^verbatim>\<open>most_common\<close>). The same order decides the cut: a keyword left
  out has a smaller count than every retained one, or the same count and a later first
  occurrence. Count and first occurrence order the keywords of \<open>toks\<close> totally, so the
  keywords of the list and their order are determined.
\<close>

theorem priority_issues_ranking:
  assumes "fst (identify_priority_issues st) = Inr (Some (Ranked ps))"
    and "feedback_data st = Some df"
    and "sentiment_col df = Some sents"
    and "toks = filter (\<lambda>kw. kw \<in> set problem_keywords)
                  (concat (map (\<lambda>fb. case fb of None \<Rightarrow> []
                                      | Some text \<Rightarrow> findall_words (lower text))
                             (map fst (filter (\<lambda>row. snd row = Negative)
                                         (zip (feedback_col df) sents)))))"
  shows "length ps = min 5 (card (set toks))
       \<and> distinct (map issue ps)
       \<and> (\<forall>p\<in>set ps. issue p \<in> set problem_keywords
              \<and> frequency p = count_list toks (issue p) \<and> 0 < frequency p)
       \<and> sorted_wrt (\<lambda>a b. frequency b < frequency a
                        \<or> (frequency a = frequency b
                            \<and> length (takeWhile (\<lambda>w. w \<noteq> issue a) toks)
                                < length (takeWhile (\<lambda>w. w \<noteq> issue b) toks))) ps
       \<and> (\<forall>k\<in>set toks. k \<notin> issue ` set ps \<longrightarrow>
              (\<forall>p\<in>set ps. count_list toks k < frequency p
                  \<or> (count_list toks k = frequency p
                      \<and> length (takeWhile (\<lambda>w. w \<noteq> issue p) toks)
                          < length (takeWhile (\<lambda>w. w \<noteq> k) toks))))"
proof -
  let ?mk = "\<lambda>ic. \<lparr>issue = fst ic, frequency = snd ic,
                    percentage = py_round (real (snd ic)
                                   / real (length (feedback_col df)) * 100) 1\<rparr>"
  let ?R = "\<lambda>a b. length (takeWhile (\<lambda>w. w \<noteq> fst a) toks)
                   < length (takeWhile (\<lambda>w. w \<noteq> fst b) toks)"
  let ?mc = "most_common 5 (Counter toks)"
  have toks: "toks = filter (\<lambda>kw. kw \<in> set problem_keywords)
                       (negative_keywords (negative_rows (feedback_col df) sents))"
    using assms(4) by (simp add: negative_keywords_def negative_rows_def)
  have ps: "ps = map ?mk ?mc"
    using identify_ranked [OF assms(1,2)] assms(3) toks by auto
  have sub: "set ?mc \<subseteq> set (Counter toks)"
    by (rule most_common_set)
  have len: "length ps = min 5 (card (set toks))"
    by (simp add: ps most_common_length Counter_length)
  have "map issue ps = map fst ?mc"
    by (simp add: ps)
  then have dist: "distinct (map issue ps)"
    using most_common_distinct [OF Counter_distinct, of 5 toks] by simp
  have ent: "\<forall>p\<in>set ps. issue p \<in> set problem_keywords
              \<and> frequency p = count_list toks (issue p) \<and> 0 < frequency p"
  proof
    fix p assume "p \<in> set ps"
    then obtain k v where kv: "(k, v) \<in> set ?mc" and p: "p = ?mk (k, v)"
      unfolding ps by auto
    from kv sub have "(k, v) \<in> set (Counter toks)" by blast
    then have k: "k \<in> set toks" and v: "v = count_list toks k"
      using Counter_entry by fastforce+
    from k have "k \<in> set problem_keywords"
      unfolding toks by simp
    moreover from k v have "0 < v"
      using count_list_0_iff [of toks k] by simp
    ultimately show "issue p \<in> set problem_keywords
              \<and> frequency p = count_list toks (issue p) \<and> 0 < frequency p"
      using p v by simp
  qed
  have first: "sorted_wrt ?R (Counter toks)"
    using Counter_keys_first_order [of toks] by (simp add: sorted_wrt_map)
  then have "sorted_wrt (\<lambda>a b. snd b < snd a \<or> (snd a = snd b \<and> ?R a b)) ?mc"
    by (rule most_common_order)
  then have ord: "sorted_wrt (\<lambda>a b. frequency b < frequency a
                        \<or> (frequency a = frequency b
                            \<and> length (takeWhile (\<lambda>w. w \<noteq> issue a) toks)
                                < length (takeWhile (\<lambda>w. w \<noteq> issue b) toks))) ps"
    by (simp add: ps sorted_wrt_map)
  have cut: "\<forall>k\<in>set toks. k \<notin> issue ` set ps \<longrightarrow>
              (\<forall>p\<in>set ps. count_list toks k < frequency p
                  \<or> (count_list toks k = frequency p
                      \<and> length (takeWhile (\<lambda>w. w \<noteq> issue p) toks)
                          < length (takeWhile (\<lambda>w. w \<noteq> k) toks)))"
  proof (intro ballI impI)
    fix k p assume k: "k \<in> set toks" and out: "k \<notin> issue ` set ps" and p: "p \<in> set ps"
    from k have b: "(k, count_list toks k) \<in> set (Counter toks)"
      using Counter_map_of [of toks k] by (auto dest: map_of_SomeD)
    from p obtain a where a: "a \<in> set ?mc" and pa: "p = ?mk a"
      unfolding ps by auto
    have "fst (k, count_list toks k) \<notin> fst ` set ?mc"
      using out unfolding ps by (auto simp: image_iff)
    from most_common_cut [OF Counter_distinct first b this a]
    show "count_list toks k < frequency p
            \<or> (count_list toks k = frequency p
                \<and> length (takeWhile (\<lambda>w. w \<noteq> issue p) toks)
                    < length (takeWhile (\<lambda>w. w \<noteq> k) toks))"
      using pa by auto
  qed
  show ?thesis
    using len dist ent ord cut by blast
qed

text \<open>
  Twenty responses, three of them negative and one of those naming \<^verbatim>\<open>slow\<close>: the one
  priority issue has frequency 1 and percentage 5.0, not 33.3.
\<close>

theorem priority_percentage_of_total_witness:
  "\<exists>ps. fst (identify_priority_issues
              (snd (analyze_sentiment (\<lambda>t. if t = ''ok'' then 1 / 2 else - (1 / 2))
                 (load_feedback
                    [Some ''ok'', Some ''ok'', Some ''ok'', Some ''ok'', Some ''ok'',
                     Some ''bad'', Some ''ok'', Some ''ok'', Some ''ok'', Some ''ok'',
                     Some ''The app is SLOW.'', Some ''ok'', Some ''ok'', Some ''ok'', Some ''ok'',
                     Some ''ok'', Some ''bad'', Some ''ok'', Some ''ok'', Some ''ok'']
                    init_analyzer))))
          = Inr (Some (Ranked ps))
      \<and> map issue ps = [''slow''] \<and> map frequency ps = [1] \<and> map percentage ps = [5]"
proof -
  let ?sc = "\<lambda>t::string. if t = ''ok'' then 1 / 2 else - (1 / 2) :: real"
  let ?fb = "[Some ''ok'', Some ''ok'', Some ''ok'', Some ''ok'', Some ''ok'',
              Some ''bad'', Some ''ok'', Some ''ok'', Some ''ok'', Some ''ok'',
              Some ''The app is SLOW.'', Some ''ok'', Some ''ok'', Some ''ok'', Some ''ok'',
              Some ''ok'', Some ''bad'', Some ''ok'', Some ''ok'', Some ''ok'']"
  let ?st1 = "snd (analyze_sentiment ?sc (load_feedback ?fb init_analyzer))"
  let ?df = "\<lparr>feedback_col = ?fb,
              sentiment_col =
                Some [Positive, Positive, Positive, Positive, Positive,
                      Negative, Positive, Positive, Positive, Positive,
                      Negative, Positive, Positive, Positive, Positive,
                      Positive, Negative, Positive, Positive, Positive],
              sentiment_score_col = Some (map (\<lambda>fb. snd (score_feedback ?sc fb)) ?fb)\<rparr>"
  have f: "feedback_data ?st1 = Some ?df"
    by (simp add: analyze_sentiment_def load_feedback_def init_analyzer_def Let_def
          score_feedback_def classify_def)
  have sa: "sentiment_analysis (analysis_results ?st1) \<noteq> None"
    by (simp add: analyze_sentiment_def load_feedback_def init_analyzer_def Let_def)
  have toks: "filter (\<lambda>kw. kw \<in> set problem_keywords)
                (negative_keywords [Some ''bad'', Some ''The app is SLOW.'', Some ''bad''])
              = [''slow'']"
    by code_simp
  have r5: "py_round 5 (Suc 0) = 5"
    by (simp add: py_round_def rint_def)
  have res: "fst (identify_priority_issues ?st1)
               = Inr (Some (Ranked [\<lparr>issue = ''slow'', frequency = 1, percentage = 5\<rparr>]))"
    using sa
    by (simp add: identify_priority_issues_def f negative_rows_def toks Counter_def
          most_common_def r5 Let_def)
  have "percentage \<lparr>issue = ''slow'', frequency = 1, percentage = 5\<rparr>
          = py_round (real (frequency \<lparr>issue = ''slow'', frequency = 1, percentage = 5\<rparr>)
                        / real (length (feedback_col ?df)) * 100) 1"
    by (rule priority_percentage_of_total [OF res f]) simp
  with res show ?thesis by simp
qed


text \<open>
  Three responses, the second positive. The negative texts name six problem keywords,
  \<^verbatim>\<open>slow\<close> twice and the others once: \<^verbatim>\<open>slow\<close> is ranked first, then the four
  keywords of count 1 that are met first, and \<^verbatim>\<open>complicated\<close>, met after them, is
  left out. The word \<^verbatim>\<open>slow\<close> in the positive text is not counted.
\<close>

theorem priority_issues_ranking_witness:
  "\<exists>ps. fst (identify_priority_issues
              (snd (analyze_sentiment (\<lambda>t. if t = ''not slow'' then 1 else - 1)
                 (load_feedback
                    [Some ''Broken: error, and SLOW.'', Some ''not slow'',
                     Some ''confusing difficult complicated slow'']
                    init_analyzer))))
          = Inr (Some (Ranked ps))
      \<and> map issue ps = [''slow'', ''broken'', ''error'', ''confusing'', ''difficult'']
      \<and> map frequency ps = [2, 1, 1, 1, 1]
      \<and> length ps = min 5 (card (set [''broken'', ''error'', ''slow'', ''confusing'',
                                        ''difficult'', ''complicated'', ''slow'']))
      \<and> (\<forall>p\<in>set ps.
            count_list [''broken'', ''error'', ''slow'', ''confusing'',
                        ''difficult'', ''complicated'', ''slow''] ''complicated'' < frequency p
            \<or> (count_list [''broken'', ''error'', ''slow'', ''confusing'',
                            ''difficult'', ''complicated'', ''slow''] ''complicated'' = frequency p
                \<and> length (takeWhile (\<lambda>w. w \<noteq> issue p)
                            [''broken'', ''error'', ''slow'', ''confusing'',
                             ''difficult'', ''complicated'', ''slow''])
                    < length (takeWhile (\<lambda>w. w \<noteq> ''complicated'')
                                [''broken'', ''error'', ''slow'', ''confusing'',
                                 ''difficult'', ''complicated'', ''slow''])))"
proof -
  let ?sc = "\<lambda>t::string. if t = ''not slow'' then 1 else - 1 :: real"
  let ?fb = "[Some ''Broken: error, and SLOW.'', Some ''not slow'',
              Some ''confusing difficult complicated slow'']"
  let ?st1 = "snd (analyze_sentiment ?sc (load_feedback ?fb init_analyzer))"
  let ?df = "\<lparr>feedback_col = ?fb, sentiment_col = Some [Negative, Positive, Negative],
              sentiment_score_col = Some [- 1, 1, - 1]\<rparr>"
  let ?toks = "[''broken'', ''error'', ''slow'', ''confusing'', ''difficult'', ''complicated'',
                ''slow'']"
  have f: "feedback_data ?st1 = Some ?df"
    by (simp add: analyze_sentiment_def load_feedback_def init_analyzer_def Let_def
          score_feedback_def classify_def)
  have sa: "sentiment_analysis (analysis_results ?st1) \<noteq> None"
    by (simp add: analyze_sentiment_def load_feedback_def init_analyzer_def Let_def)
  have sc: "sentiment_col ?df = Some [Negative, Positive, Negative]"
    by simp
  have toks: "filter (\<lambda>kw. kw \<in> set problem_keywords)
                (negative_keywords [Some ''Broken: error, and SLOW.'',
                                    Some ''confusing difficult complicated slow''])
              = ?toks"
    by code_simp
  have mc: "most_common 5 (Counter ?toks)
              = [(''slow'', 2), (''broken'', 1), (''error'', 1), (''confusing'', 1),
                 (''difficult'', 1)]"
    by (simp add: Counter_def most_common_def)
  obtain ps where res: "fst (identify_priority_issues ?st1) = Inr (Some (Ranked ps))"
    and iss: "map issue ps = [''slow'', ''broken'', ''error'', ''confusing'', ''difficult'']"
    and frq: "map frequency ps = [2, 1, 1, 1, 1]"
    using sa
    by (simp add: identify_priority_issues_def f negative_rows_def toks mc Let_def)
  have t: "?toks = filter (\<lambda>kw. kw \<in> set problem_keywords)
                  (concat (map (\<lambda>fb. case fb of None \<Rightarrow> []
                                      | Some text \<Rightarrow> findall_words (lower text))
                             (map fst (filter (\<lambda>row. snd row = Negative)
                                         (zip (feedback_col ?df) [Negative, Positive, Negative])))))"
    using toks by (simp add: negative_keywords_def)
  note th = priority_issues_ranking [OF res f sc t]
  have l: "length ps = min 5 (card (set ?toks))"
    using th by (elim conjE)
  have cut: "\<forall>k\<in>set ?toks. k \<notin> issue ` set ps \<longrightarrow>
              (\<forall>p\<in>set ps. count_list ?toks k < frequency p
                  \<or> (count_list ?toks k = frequency p
                      \<and> length (takeWhile (\<lambda>w. w \<noteq> issue p) ?toks)
                          < length (takeWhile (\<lambda>w. w \<noteq> k) ?toks)))"
    using th by (elim conjE)
  have "''complicated'' \<notin> issue ` set ps"
  proof -
    have "issue ` set ps = set (map issue ps)" by simp
    then show ?thesis unfolding iss by simp
  qed
  moreover have "''complicated'' \<in> set ?toks" by simp
  ultimately have c: "\<forall>p\<in>set ps. count_list ?toks ''complicated'' < frequency p
                  \<or> (count_list ?toks ''complicated'' = frequency p
                      \<and> length (takeWhile (\<lambda>w. w \<noteq> issue p) ?toks)
                          < length (takeWhile (\<lambda>w. w \<noteq> ''complicated'') ?toks))"
    using cut by blast
  show ?thesis
    by (intro exI [of _ ps] conjI) (fact res iss frq l c)+
qed

text \<open>
  Claim C4 as stated fails on its tie-break. One negative response naming \<^verbatim>\<open>crash\<close> before
  \<^verbatim>\<open>slow\<close>: both count 1 and \<^verbatim>\<open>crash\<close> is ranked first, though \<^verbatim>\<open>slow\<close> precedes
  it in the problem vocabulary; with the two words exchanged in the text the ranking is
  exchanged too.
\<close>

theorem vocabulary_tie_break_counterexample:
  "(case fst (identify_priority_issues
               (snd (analyze_sentiment (\<lambda>t. - 1)
                       (load_feedback [Some ''crash slow''] init_analyzer)))) of
      Inr (Some (Ranked ps)) \<Rightarrow>
        map issue ps = [''crash'', ''slow''] \<and> map frequency ps = [1, 1]
    | _ \<Rightarrow> False)
   \<and> (case fst (identify_priority_issues
               (snd (analyze_sentiment (\<lambda>t. - 1)
                       (load_feedback [Some ''slow crash''] init_analyzer)))) of
      Inr (Some (Ranked ps)) \<Rightarrow>
        map issue ps = [''slow'', ''crash''] \<and> map frequency ps = [1, 1]
    | _ \<Rightarrow> False)
   \<and> length (takeWhile (\<lambda>w. w \<noteq> ''slow'') problem_keywords)
       < length (takeWhile (\<lambda>w. w \<noteq> ''crash'') problem_keywords)"
proof -
  have t1: "filter (\<lambda>kw. kw \<in> set problem_keywords) (negative_keywords [Some ''crash slow''])
              = [''crash'', ''slow'']"
    by code_simp
  have t2: "filter (\<lambda>kw. kw \<in> set problem_keywords) (negative_keywords [Some ''slow crash''])
              = [''slow'', ''crash'']"
    by code_simp
  have a: "case fst (identify_priority_issues
               (snd (analyze_sentiment (\<lambda>t. - 1)
                       (load_feedback [Some ''crash slow''] init_analyzer)))) of
      Inr (Some (Ranked ps)) \<Rightarrow>
        map issue ps = [''crash'', ''slow''] \<and> map frequency ps = [1, 1]
    | _ \<Rightarrow> False"
    by (simp add: identify_priority_issues_def analyze_sentiment_def load_feedback_def
          init_analyzer_def Let_def score_feedback_def classify_def negative_rows_def t1
          Counter_def most_common_def)
  have b: "case fst (identify_priority_issues
               (snd (analyze_sentiment (\<lambda>t. - 1)
                       (load_feedback [Some ''slow crash''] init_analyzer)))) of
      Inr (Some (Ranked ps)) \<Rightarrow>
        map issue ps = [''slow'', ''crash''] \<and> map frequency ps = [1, 1]
    | _ \<Rightarrow> False"
    by (simp add: identify_priority_issues_def analyze_sentiment_def load_feedback_def
          init_analyzer_def Let_def score_feedback_def classify_def negative_rows_def t2
          Counter_def most_common_def)
  have c: "length (takeWhile (\<lambda>w. w \<noteq> ''slow'') problem_keywords)
       < length (takeWhile (\<lambda>w. w \<noteq> ''crash'') problem_keywords)"
    by (simp add: problem_keywords_def)
  from a b c show ?thesis by blast
qed

subsection \<open>calculate\_satisfaction\_metrics: the satisfaction rate\<close>

lemma present_Cons:
  "present (c # col) = (case c of None \<Rightarrow> present col | Some v \<Rightarrow> v # present col)"
  by (simp add: present_def List.map_filter_simps split: option.splits)

lemma present_Nil: "present [] = []"
  by (simp add: present_def List.map_filter_simps)

lemma col_max_Max:
  "col_max col = (if present col = [] then None else Some (Max (set (present col))))"
proof (cases "present col")
  case Nil
  then show ?thesis by (simp add: col_max_def)
next
  case (Cons v vs)
  have "fold max vs v = Max (set (v # vs))"
    by (rule Max.set_eq_fold [symmetric])
  with Cons show ?thesis by (simp add: col_max_def)
qed

lemma count_ge_present:
  "count_ge col b = length (filter (\<lambda>v. b \<le> v) (present col))"
proof (induction col)
  case Nil
  then show ?case by (simp add: count_ge_def present_Nil)
next
  case (Cons c col)
  then show ?case
    by (cases c) (simp_all add: count_ge_def present_Cons)
qed

lemma present_no_missing: "None \<notin> set col \<Longrightarrow> length (present col) = length col"
proof (induction col)
  case Nil
  then show ?case by (simp add: present_Nil)
next
  case (Cons c col)
  then show ?case by (cases c) (simp_all add: present_Cons)
qed

lemma column_metrics_fields:
  "mean (column_metrics col) = round_nan (col_mean col) 2"
  "count (column_metrics col) = col_count col"
  "satisfaction_rate (column_metrics col) =
     (if nan_le (col_max col) 5
      then Some (py_round (real (count_ge col 4) / real (length col) * 100) 1)
      else None)"
  by (simp_all add: column_metrics_def Let_def)

text \<open>
  Claim C2, as the code has it. For every rating column that has a value and whose largest
  value is at most 5, the satisfaction rate is the number of values that are at least 4
  over the number of rows of the column, missing values counted among the rows, times 100
  and rounded to one decimal; it is the percentage among the non-missing values when none
  is missing. A column whose largest value exceeds 5, or with no value at all, gets no
  satisfaction rate.
\<close>

theorem satisfaction_rate_over_rows:
  assumes "processed_data st = Some t"
    and "i < length (rating_cols t)"
    and "rating_cols t ! i = (name, col)"
  shows "\<exists>ms. fst (calculate_satisfaction_metrics st) = Some ms
           \<and> length ms = length (rating_cols t)
           \<and> fst (ms ! i) = name
           \<and> satisfaction_rate (snd (ms ! i)) =
               (if present col \<noteq> [] \<and> Max (set (present col)) \<le> 5
                then Some (py_round (real (length (filter (\<lambda>v. 4 \<le> v) (present col)))
                                       / real (length col) * 100) 1)
                else None)
           \<and> (None \<notin> set col \<longrightarrow> length col = length (present col))"
proof -
  let ?ms = "map (\<lambda>c. (fst c, column_metrics (snd c))) (rating_cols t)"
  have r: "fst (calculate_satisfaction_metrics st) = Some ?ms"
    using assms(1) by (simp add: calculate_satisfaction_metrics_def Let_def)
  have e: "?ms ! i = (name, column_metrics col)"
    using assms(2,3) by simp
  have s: "satisfaction_rate (column_metrics col) =
               (if present col \<noteq> [] \<and> Max (set (present col)) \<le> 5
                then Some (py_round (real (length (filter (\<lambda>v. 4 \<le> v) (present col)))
                                       / real (length col) * 100) 1)
                else None)"
    by (simp add: column_metrics_fields col_max_Max nan_le_def count_ge_present)
  show ?thesis
    using r e s present_no_missing [of col] by simp
qed

text \<open>
  A column on a five-point scale with one missing value out of four, and a column whose
  largest value is 7.
\<close>

theorem satisfaction_rate_over_rows_witness:
  "(\<exists>ms. fst (calculate_satisfaction_metrics
               \<lparr>processed_data =
                  Some \<lparr>rating_cols = [(''ease_rating'', [Some 4, Some 2, None, Some 5]),
                                       (''Rating_nps'', [Some 7, Some 3])],
                        other_cols = []\<rparr>,
                satisfaction_metrics = None, segment_analysis = None\<rparr>) = Some ms
         \<and> satisfaction_rate (snd (ms ! 0)) = Some 50
         \<and> satisfaction_rate (snd (ms ! 1)) = None)"
proof -
  let ?t = "\<lparr>rating_cols = [(''ease_rating'', [Some 4, Some 2, None, Some (5::real)]),
                           (''Rating_nps'', [Some 7, Some 3])],
             other_cols = []\<rparr>"
  let ?st = "\<lparr>processed_data = Some ?t, satisfaction_metrics = None, segment_analysis = None\<rparr>"
  have p: "processed_data ?st = Some ?t" by simp
  have i0: "0 < length (rating_cols ?t)" and i1: "1 < length (rating_cols ?t)" by simp_all
  have c0: "rating_cols ?t ! 0 = (''ease_rating'', [Some 4, Some 2, None, Some 5])"
    and c1: "rating_cols ?t ! 1 = (''Rating_nps'', [Some 7, Some 3])"
    by simp_all
  have r50: "py_round 50 (Suc 0) = 50"
    by (simp add: py_round_def rint_def)
  from satisfaction_rate_over_rows [OF p i0 c0] satisfaction_rate_over_rows [OF p i1 c1]
  show ?thesis
    by (auto simp: present_Cons present_Nil r50)
qed

text \<open>
  Claim C2 as stated fails when a value is missing: for the column 5, NaN every non-missing
  value is at least 4, which is 100 percent of them, and the satisfaction rate is 50.0.
\<close>

theorem satisfaction_rate_missing_counterexample:
  "map_option (map (\<lambda>m. (fst m, satisfaction_rate (snd m))))
     (fst (calculate_satisfaction_metrics
             \<lparr>processed_data =
                Some \<lparr>rating_cols = [(''overall_rating'', [Some 5, None])], other_cols = []\<rparr>,
              satisfaction_metrics = None, segment_analysis = None\<rparr>))
     = Some [(''overall_rating'', Some 50)]
   \<and> py_round (real (length (filter (\<lambda>v. 4 \<le> v) (present [Some (5::real), None])))
                 / real (length (present [Some (5::real), None])) * 100) 1 = 100
   \<and> Max (set (present [Some (5::real), None])) \<le> 5"
proof -
  have r: "py_round 50 (Suc 0) = 50" "py_round 100 (Suc 0) = 100"
    by (simp_all add: py_round_def rint_def)
  show ?thesis
    by (simp add: calculate_satisfaction_metrics_def column_metrics_fields col_max_def
          nan_le_def count_ge_def present_Cons present_Nil r Let_def)
qed

subsection \<open>analyze\_by\_segments: a single segment\<close>

lemma unique_single:
  "segcol \<noteq> [] \<Longrightarrow> \<forall>c\<in>set segcol. c = s \<Longrightarrow> unique segcol = [s]"
proof (induction segcol)
  case Nil
  then show ?case by simp
next
  case (Cons a segcol)
  show ?case
  proof (cases "segcol = []")
    case True
    with Cons.prems show ?thesis by simp
  next
    case False
    with Cons have "unique segcol = [s]" by simp
    with Cons.prems show ?thesis by simp
  qed
qed

lemma segment_rows_all:
  assumes "\<forall>c\<in>set segcol. c = Some v" and "length col = length segcol"
  shows "segment_rows segcol (Some v) col = col"
proof -
  have "filter (\<lambda>row. in_segment (Some v) (fst row)) (zip segcol col) = zip segcol col"
    using assms(1) by (auto simp: filter_id_conv in_segment_def dest!: set_zip_leftD)
  then show ?thesis
    using assms(2) by (simp add: segment_rows_def)
qed

lemma segment_len_all:
  assumes "\<forall>c\<in>set segcol. c = Some v"
  shows "length (filter (in_segment (Some v)) segcol) = length segcol"
proof -
  have "filter (in_segment (Some v)) segcol = segcol"
    using assms by (auto simp: filter_id_conv in_segment_def)
  then show ?thesis by simp
qed

lemma segment_metrics_all:
  assumes "\<forall>c\<in>set segcol. c = Some v" and "length col = length segcol"
  shows "segment_metrics segcol (Some v) col =
           \<lparr>segment_mean = mean (column_metrics col),
            segment_count = count (column_metrics col),
            segment_satisfaction_rate = satisfaction_rate (column_metrics col)\<rparr>"
  using assms
  by (simp add: segment_metrics_def Let_def segment_rows_all segment_len_all
        column_metrics_fields)

text \<open>
  Claim C8. When every row of the table has the same, non-missing segment value, the
  segment analysis has that one segment, and for each rating column its mean, count and
  satisfaction rate are those of \<^verbatim>\<open>calculate_satisfaction_metrics\<close> on the whole table.
  The segment record has no median, standard deviation or NPS score. Where the unsegmented
  dict has no \<^verbatim>\<open>satisfaction_rate\<close> key, the segment dict holds \<^verbatim>\<open>None\<close> under it:
  both are \<open>None\<close> here.
\<close>

theorem single_segment_matches_unsegmented:
  assumes "processed_data st = Some t"
    and "lookup_column t segment_column = Some segcol"
    and "segcol \<noteq> []"
    and "\<forall>c\<in>set segcol. c = Some v"
    and "wf_table t (length segcol)"
  shows "\<exists>ms. fst (calculate_satisfaction_metrics st) = Some ms
           \<and> fst (analyze_by_segments segment_column st) =
               Inr (Some [(Some v,
                           map (\<lambda>m. (fst m,
                                     \<lparr>segment_mean = mean (snd m),
                                      segment_count = count (snd m),
                                      segment_satisfaction_rate = satisfaction_rate (snd m)\<rparr>))
                             ms)])"
proof -
  let ?ms = "map (\<lambda>c. (fst c, column_metrics (snd c))) (rating_cols t)"
  have r: "fst (calculate_satisfaction_metrics st) = Some ?ms"
    using assms(1) by (simp add: calculate_satisfaction_metrics_def Let_def)
  have u: "unique segcol = [Some v]"
    by (rule unique_single [OF assms(3,4)])
  have len: "\<forall>c\<in>set (rating_cols t). length (snd c) = length segcol"
    using assms(5) by (simp add: wf_table_def list_all_iff)
  have m: "map (\<lambda>c. (fst c, segment_metrics segcol (Some v) (snd c))) (rating_cols t)
             = map (\<lambda>m. (fst m,
                         \<lparr>segment_mean = mean (snd m),
                          segment_count = count (snd m),
                          segment_satisfaction_rate = satisfaction_rate (snd m)\<rparr>)) ?ms"
    using len assms(4) by (simp add: segment_metrics_all)
  have "fst (analyze_by_segments segment_column st) =
          Inr (Some [(Some v,
                      map (\<lambda>c. (fst c, segment_metrics segcol (Some v) (snd c)))
                        (rating_cols t))])"
    using assms(1,2) u by (simp add: analyze_by_segments_def Let_def)
  with r m show ?thesis by simp
qed

text \<open>
  Three rows of one segment, a five-point column with a missing value and a ten-point
  column: mean 4.5, count 2 and rate 66.7 for the first, no rate for the second, in both
  analyses.
\<close>

theorem single_segment_matches_unsegmented_witness:
  "fst (analyze_by_segments ''plan''
          \<lparr>processed_data =
             Some \<lparr>rating_cols = [(''ease_rating'', [Some 4, None, Some 5]),
                                  (''nps_rating'', [Some 9, Some 6, Some 10])],
                   other_cols = [(''plan'', [Some (Str ''pro''), Some (Str ''pro''),
                                             Some (Str ''pro'')])]\<rparr>,
           satisfaction_metrics = None, segment_analysis = None\<rparr>)
     = Inr (Some [(Some (Str ''pro''),
                   [(''ease_rating'',
                       \<lparr>segment_mean = Some (9 / 2), segment_count = 2,
                        segment_satisfaction_rate = Some (667 / 10)\<rparr>),
                    (''nps_rating'',
                       \<lparr>segment_mean = Some (833 / 100), segment_count = 3,
                        segment_satisfaction_rate = None\<rparr>)])])"
proof -
  let ?seg = "[Some (Str ''pro''), Some (Str ''pro''), Some (Str ''pro'')]"
  let ?t = "\<lparr>rating_cols = [(''ease_rating'', [Some 4, None, Some (5::real)]),
                           (''nps_rating'', [Some 9, Some 6, Some 10])],
             other_cols = [(''plan'', ?seg)]\<rparr>"
  let ?st = "\<lparr>processed_data = Some ?t, satisfaction_metrics = None, segment_analysis = None\<rparr>"
  have p: "processed_data ?st = Some ?t" by simp
  have l: "lookup_column ?t ''plan'' = Some ?seg"
    by (simp add: lookup_column_def)
  have ne: "?seg \<noteq> []" by simp
  have al: "\<forall>c\<in>set ?seg. c = Some (Str ''pro'')" by simp
  have wf: "wf_table ?t (length ?seg)"
    by (simp add: wf_table_def)
  have r: "py_round (9 / 2) 2 = 9 / 2" "py_round (25 / 3) 2 = 833 / 100"
          "py_round (200 / 3) (Suc 0) = 667 / 10"
    by (simp_all add: py_round_def rint_def)
  have c: "fst (calculate_satisfaction_metrics ?st)
             = Some [(''ease_rating'', column_metrics [Some 4, None, Some 5]),
                     (''nps_rating'', column_metrics [Some 9, Some 6, Some 10])]"
    by (simp add: calculate_satisfaction_metrics_def Let_def)
  from single_segment_matches_unsegmented [OF p l ne al wf] c
  show ?thesis
    by (simp add: column_metrics_fields round_nan_def col_mean_def col_count_def col_max_def
          nan_le_def count_ge_def present_Cons present_Nil r)
qed

end
